theory Spec2Isabelle
  imports Main
begin

section \<open>Strings\<close>

text \<open>
  JavaScript strings are modelled as \<open>string\<close> (lists of \<open>char\<close>) and read as ASCII text:
  \<open>toLowerCase\<close> and \<open>toUpperCase\<close> act on the letters A-Z and a-z, the class \<open>\s\<close> of a
  regular expression is the six ASCII white-space characters, \<open>\d\<close> is 0-9, and the line
  terminators that \<open>.\<close> does not match are line feed and carriage return.
\<close>

definition lowerLetters :: string where
  "lowerLetters = ''abcdefghijklmnopqrstuvwxyz''"

definition upperLetters :: string where
  "upperLetters = ''ABCDEFGHIJKLMNOPQRSTUVWXYZ''"

definition toLowerChar :: "char \<Rightarrow> char" where
  "toLowerChar c = (case map_of (zip upperLetters lowerLetters) c of Some l \<Rightarrow> l | None \<Rightarrow> c)"

definition toUpperChar :: "char \<Rightarrow> char" where
  "toUpperChar c = (case map_of (zip lowerLetters upperLetters) c of Some u \<Rightarrow> u | None \<Rightarrow> c)"

definition toLowerCase :: "string \<Rightarrow> string" where
  "toLowerCase s = map toLowerChar s"

definition toUpperCase :: "string \<Rightarrow> string" where
  "toUpperCase s = map toUpperChar s"

text \<open>\<open>s.startsWith(p)\<close>, \<open>s.endsWith(p)\<close> and \<open>s.includes(p)\<close>; the pattern comes first.\<close>

fun startsWith :: "string \<Rightarrow> string \<Rightarrow> bool" where
  "startsWith [] s = True"
| "startsWith (p # ps) [] = False"
| "startsWith (p # ps) (c # cs) = (p = c \<and> startsWith ps cs)"

definition endsWith :: "string \<Rightarrow> string \<Rightarrow> bool" where
  "endsWith p s = startsWith (rev p) (rev s)"

fun includesStr :: "string \<Rightarrow> string \<Rightarrow> bool" where
  "includesStr p [] = (p = [])"
| "includesStr p (c # cs) = (startsWith p (c # cs) \<or> includesStr p cs)"

text \<open>
  \<open>s.split(c)\<close> for a separator of one character: the pieces between the separators, the
  empty pieces too; a string without the separator is its own only piece.
\<close>

fun split_chr :: "char \<Rightarrow> string \<Rightarrow> string list" where
  "split_chr c [] = [[]]"
| "split_chr c (x # xs) =
     (if x = c then [] # split_chr c xs
      else (case split_chr c xs of
              [] \<Rightarrow> [[x]]
            | p # ps \<Rightarrow> (x # p) # ps))"

text \<open>\<open>parts.join(sep)\<close>.\<close>

fun join :: "string \<Rightarrow> string list \<Rightarrow> string" where
  "join sep [] = []"
| "join sep [p] = p"
| "join sep (p # q # ps) = p @ sep @ join sep (q # ps)"

text \<open>The characters of \<open>\d\<close>, of \<open>\s\<close>, and the line terminators.\<close>

definition isDigit :: "char \<Rightarrow> bool" where
  "isDigit c = (c \<in> set ''0123456789'')"

definition isSpace :: "char \<Rightarrow> bool" where
  "isSpace c = (c \<in> set [CHR '' '', CHR 0x09, CHR 0x0A, CHR 0x0B, CHR 0x0C, CHR 0x0D])"

definition isLineTerminator :: "char \<Rightarrow> bool" where
  "isLineTerminator c = (c = CHR 0x0A \<or> c = CHR 0x0D)"

text \<open>The rest of \<open>s\<close> after the literal \<open>p\<close>, when \<open>s\<close> starts with it.\<close>

fun stripPrefix :: "string \<Rightarrow> string \<Rightarrow> string option" where
  "stripPrefix [] s = Some s"
| "stripPrefix (p # ps) [] = None"
| "stripPrefix (p # ps) (c # cs) = (if p = c then stripPrefix ps cs else None)"

section \<open>Numbers\<close>

text \<open>
  A JavaScript number is a double. The numbers of this program are step ids, and the
  model keeps the integer-valued doubles as the integers they are. \<open>toDouble n\<close> is the
  double nearest to the integer \<open>n\<close>, the even one of two equally near: every integer up
  to \<open>2^53 = 9007199254740992\<close> in absolute value is a double; beyond, the 53 leading bits
  are kept and the rest is rounded. \<open>exponentOf a\<close> is the number of bits that are dropped.
  The range of the exponent is not bounded in the model, which is the program on numbers
  below \<open>2^1024\<close>. \<open>jsAdd\<close> is the addition \<open>a + b\<close> of two such numbers: the exact sum,
  rounded.
\<close>

function exponentOf :: "nat \<Rightarrow> nat" where
  "exponentOf a = (if a < 9007199254740992 then 0 else Suc (exponentOf (a div 2)))"
  by pat_completeness auto
termination
  by (relation "measure (\<lambda>a. a)") auto

declare exponentOf.simps [simp del]

definition toDouble :: "int \<Rightarrow> int" where
  "toDouble n =
     (if \<bar>n\<bar> \<le> 9007199254740992 then n
      else (let a = nat \<bar>n\<bar>;
                e = exponentOf a;
                q = a div 2 ^ e;
                r = a mod 2 ^ e;
                m = (if 2 ^ e < 2 * r then q + 1
                     else if 2 * r = 2 ^ e \<and> odd q then q + 1
                     else q)
            in sgn n * int (m * 2 ^ e)))"

definition jsAdd :: "int \<Rightarrow> int \<Rightarrow> int" where
  "jsAdd a b = toDouble (a + b)"

text \<open>
  \<open>parseInt\<close> of a string of decimal digits: the double nearest to the number written.
  \<open>decimal\<close> is the decimal numeral of a number.
\<close>

definition digitValue :: "char \<Rightarrow> nat" where
  "digitValue c = (case map_of (zip ''0123456789'' [0, 1, 2, 3, 4, 5, 6, 7, 8, 9]) c of
                     Some d \<Rightarrow> d | None \<Rightarrow> 0)"

definition parseInt :: "string \<Rightarrow> nat" where
  "parseInt ds = nat (toDouble (int (foldl (\<lambda>n c. 10 * n + digitValue c) 0 ds)))"

fun decimal :: "nat \<Rightarrow> string" where
  "decimal n = (if n < 10 then [''0123456789'' ! n]
                else decimal (n div 10) @ [''0123456789'' ! (n mod 10)])"

section \<open>Employee profiles (employee-identifier.ts)\<close>

text \<open>
  A JSON value, for the free-form \<open>data\<close> of a completed step and the fields of a step's
  record.
\<close>

datatype jsval =
    JStr string
  | JNum int
  | JBool bool
  | JNull
  | JObj "(string \<times> jsval) list"
  | JArr "jsval list"

text \<open>
  \<open>EmployeeProfile\<close>. The three fields of \<open>metadata\<close> are fields of the record. \<open>stepData\<close> maps
  a step id to that step's record, an object from field names to values; a field whose
  value is \<open>undefined\<close> is an absent field, as it is in the stored JSON.
\<close>

record EmployeeProfile =
  email :: string
  name :: string
  startDate :: string
  buddyEmail :: "string option"
  department :: "string option"
  currentStep :: int
  completedSteps :: "int list"
  stepData :: "int \<rightharpoonup> (string \<rightharpoonup> jsval)"
  createdAt :: string
  lastUpdated :: string
  version :: string

text \<open>The arguments of \<open>start_onboarding\<close> and \<open>register_employee\<close>; \<open>None\<close> is an absent argument.\<close>

record StartOnboardingArgs =
  argEmail :: "string option"
  argName :: "string option"
  argBuddyEmail :: "string option"
  argDepartment :: "string option"

datatype error = REGISTRATION_REQUIRED | EmailAndNameRequired

text \<open>
  The data directory: the profile files by file name. A file that cannot be read or parsed
  is an absent one (\<open>getEmployeeProfile\<close> treats both alike), and writing a file always
  succeeds. File names are compared as they are written, as a case-sensitive file system
  does, and \<open>path.join\<close> is taken on plain names, without path separators. The derived
  \<open>progress-index.json\<close>, rewritten from the profile files by every save and read by no
  handler, is not part of the model.
\<close>

type_synonym store = "string \<rightharpoonup> EmployeeProfile"

definition profilePath :: "string \<Rightarrow> string" where
  "profilePath e = e @ ''.json''"

text \<open>\<open>isValidEmail\<close>: the regular expression \<open>^[^\s@]+@[^\s@]+\.[^\s@]+$\<close>.\<close>

definition isValidEmail :: "string \<Rightarrow> bool" where
  "isValidEmail e =
     (case split_chr (CHR ''@'') e of
        [l, d] \<Rightarrow> l \<noteq> [] \<and> list_all (\<lambda>c. \<not> isSpace c) (l @ d) \<and> CHR ''.'' \<in> set (butlast (tl d))
      | _ \<Rightarrow> False)"

text \<open>\<open>part.charAt(0).toUpperCase() + part.slice(1).toLowerCase()\<close>.\<close>

definition capitalize :: "string \<Rightarrow> string" where
  "capitalize part = toUpperCase (take 1 part) @ toLowerCase (drop 1 part)"

definition localPart :: "string \<Rightarrow> string" where
  "localPart e = (case split_chr (CHR ''@'') e of [] \<Rightarrow> [] | p # ps \<Rightarrow> p)"

definition extractNameFromEmail :: "string \<Rightarrow> string" where
  "extractNameFromEmail e =
     (let lp = localPart e in
      if includesStr ''.'' lp then join '' '' (map capitalize (split_chr (CHR ''.'') lp))
      else if includesStr ''_'' lp then join '' '' (map capitalize (split_chr (CHR ''_'') lp))
      else capitalize lp)"

text \<open>
  \<open>saveEmployeeProfile\<close>: refreshes \<open>lastUpdated\<close> and writes the profile under the name made
  from its own \<open>email\<close> field. \<open>now\<close> is the reading of the clock (an ISO timestamp) during the
  call; the profile is returned as the caller sees it afterwards, mutated.
\<close>

definition saveEmployeeProfile :: "string \<Rightarrow> EmployeeProfile \<Rightarrow> store \<Rightarrow> EmployeeProfile \<times> store" where
  "saveEmployeeProfile now profile st =
     (let profile' = profile\<lparr>lastUpdated := now\<rparr>
      in (profile', st(profilePath (email profile') \<mapsto> profile')))"

text \<open>\<open>a || b\<close> on optional strings: an absent or empty \<open>a\<close> gives \<open>b\<close>.\<close>

definition orElse :: "string option \<Rightarrow> string \<Rightarrow> string" where
  "orElse a b = (case a of None \<Rightarrow> b | Some s \<Rightarrow> if s = [] then b else s)"

definition createNewProfile ::
  "string \<Rightarrow> string \<Rightarrow> StartOnboardingArgs option \<Rightarrow> store \<Rightarrow> EmployeeProfile \<times> store" where
  "createNewProfile now e additionalInfo st =
     (let profile = \<lparr>
            email = toLowerCase e,
            name = orElse (Option.bind additionalInfo argName) (extractNameFromEmail e),
            startDate = now,
            buddyEmail = Option.bind additionalInfo argBuddyEmail,
            department = Option.bind additionalInfo argDepartment,
            currentStep = 1,
            completedSteps = [],
            stepData = Map.empty,
            createdAt = now,
            lastUpdated = now,
            version = ''1.0'' \<rparr>
      in saveEmployeeProfile now profile st)"

text \<open>
  \<open>email || await this.getCurrentEmployeeEmail()\<close>. The detection reads the process
  environment and the directory listing; its outcome in the current environment is the
  parameter \<open>detected\<close>, an email or the error \<open>REGISTRATION_REQUIRED\<close>.
\<close>

definition resolveEmail :: "error + string \<Rightarrow> string option \<Rightarrow> error + string" where
  "resolveEmail detected e =
     (case e of None \<Rightarrow> detected | Some s \<Rightarrow> if s = [] then detected else Inr s)"

definition getEmployeeProfile ::
  "string \<Rightarrow> error + string \<Rightarrow> string option \<Rightarrow> store \<Rightarrow> error + EmployeeProfile \<times> store" where
  "getEmployeeProfile now detected e st =
     (case resolveEmail detected e of
        Inl err \<Rightarrow> Inl err
      | Inr employeeEmail \<Rightarrow>
          (case st (profilePath employeeEmail) of
             Some profile \<Rightarrow> Inr (profile, st)
           | None \<Rightarrow> Inr (createNewProfile now employeeEmail None st)))"

section \<open>Step documents (config-parser.ts)\<close>

text \<open>
  \<open>OnboardingStep\<close>, with the fields the properties below read: the id, the required flag,
  the raw content and the format. The other fields of the source (title, description,
  type, resources, completionCriteria) are computed by the parser from the content and
  the id alone, so a record is determined by the fields kept here.
\<close>

record OnboardingStep =
  step_id :: int
  required :: bool
  content :: string
  isMarkdown :: bool

text \<open>
  \<open>filename.match(/step-(\d+)/)\<close>: the digits captured by the leftmost match, and the id
  \<open>idMatch ? parseInt(idMatch[1]) : 0\<close>.
\<close>

fun stepIdMatch :: "string \<Rightarrow> string option" where
  "stepIdMatch [] = None"
| "stepIdMatch (c # cs) =
     (case stripPrefix ''step-'' (c # cs) of
        None \<Rightarrow> stepIdMatch cs
      | Some r \<Rightarrow> if takeWhile isDigit r = [] then stepIdMatch cs else Some (takeWhile isDigit r))"

definition fileStepId :: "string \<Rightarrow> int" where
  "fileStepId f = (case stepIdMatch f of None \<Rightarrow> 0 | Some ds \<Rightarrow> int (parseInt ds))"

text \<open>
  The header line of a markdown step,
  \<open>content.match(/\*\*Step \d+ of \d+\*\*\s*\|\s*\*\*(.+?)\*\*/)\<close>.
  \<open>lazyLabel\<close> is \<open>(.+?)\*\*\<close>: the shortest run of one or more characters, none a line
  terminator, that two asterisks follow. \<open>matchHeaderAt\<close> is the match at the start of a
  string and \<open>headerMatch\<close> the leftmost match, both giving the captured label.
\<close>

fun lazyLabel :: "string \<Rightarrow> string option" where
  "lazyLabel [] = None"
| "lazyLabel (c # cs) =
     (if isLineTerminator c then None
      else if startsWith ''**'' cs then Some [c]
      else map_option ((#) c) (lazyLabel cs))"

definition matchHeaderAt :: "string \<Rightarrow> string option" where
  "matchHeaderAt s =
     (case stripPrefix ''**Step '' s of
        None \<Rightarrow> None
      | Some r1 \<Rightarrow>
          if takeWhile isDigit r1 = [] then None
          else (case stripPrefix '' of '' (dropWhile isDigit r1) of
                  None \<Rightarrow> None
                | Some r2 \<Rightarrow>
                    if takeWhile isDigit r2 = [] then None
                    else (case stripPrefix ''**'' (dropWhile isDigit r2) of
                            None \<Rightarrow> None
                          | Some r3 \<Rightarrow>
                              (case stripPrefix ''|'' (dropWhile isSpace r3) of
                                 None \<Rightarrow> None
                               | Some r4 \<Rightarrow>
                                   (case stripPrefix ''**'' (dropWhile isSpace r4) of
                                      None \<Rightarrow> None
                                    | Some r5 \<Rightarrow> lazyLabel r5)))))"

fun headerMatch :: "string \<Rightarrow> string option" where
  "headerMatch [] = None"
| "headerMatch (c # cs) =
     (case matchHeaderAt (c # cs) of
        Some label \<Rightarrow> Some label
      | None \<Rightarrow> headerMatch cs)"

text \<open>
  \<open>parseStepMarkdown\<close>. Its \<open>try\<close> block holds regular-expression matches and string
  operations only, none of which throws, so it always returns a step.
\<close>

definition parseStepMarkdown :: "string \<Rightarrow> string \<Rightarrow> OnboardingStep" where
  "parseStepMarkdown c filename =
     \<lparr> step_id = fileStepId filename,
       required = (case headerMatch c of
                     Some label \<Rightarrow> includesStr ''required'' (toLowerCase label)
                   | None \<Rightarrow> True),
       content = c,
       isMarkdown = True \<rparr>"

text \<open>
  \<open>content.match(/data-required="(true|false)"/)\<close>, the leftmost match, and
  \<open>parseStepHTML\<close>.
\<close>

definition dataRequiredAt :: "string \<Rightarrow> string option" where
  "dataRequiredAt s =
     (if startsWith (''data-required='' @ [CHR 0x22] @ ''true'' @ [CHR 0x22]) s then Some ''true''
      else if startsWith (''data-required='' @ [CHR 0x22] @ ''false'' @ [CHR 0x22]) s then Some ''false''
      else None)"

fun dataRequiredMatch :: "string \<Rightarrow> string option" where
  "dataRequiredMatch [] = None"
| "dataRequiredMatch (c # cs) =
     (case dataRequiredAt (c # cs) of
        Some v \<Rightarrow> Some v
      | None \<Rightarrow> dataRequiredMatch cs)"

definition parseStepHTML :: "string \<Rightarrow> string \<Rightarrow> OnboardingStep" where
  "parseStepHTML c filename =
     \<lparr> step_id = fileStepId filename,
       required = (case dataRequiredMatch c of
                     Some v \<Rightarrow> v = ''true''
                   | None \<Rightarrow> True),
       content = c,
       isMarkdown = False \<rparr>"

text \<open>
  The steps directory: \<open>None\<close> when it cannot be listed, otherwise its files in the order
  of the listing, each with its content, or \<open>None\<close> for a file that cannot be read.
\<close>

type_synonym stepsDir = "(string \<times> string option) list option"

text \<open>The first loop of \<open>loadSteps\<close>, over the markdown files.\<close>

fun loadMarkdownFiles :: "(string \<times> string option) list \<Rightarrow> OnboardingStep list" where
  "loadMarkdownFiles [] = []"
| "loadMarkdownFiles ((file, None) # files) = loadMarkdownFiles files"
| "loadMarkdownFiles ((file, Some c) # files) = parseStepMarkdown c file # loadMarkdownFiles files"

text \<open>
  The second loop, over the HTML files: \<open>stepIds\<close> holds the ids of the markdown steps and
  is not extended by this loop.
\<close>

fun loadHtmlFiles :: "int list \<Rightarrow> (string \<times> string option) list \<Rightarrow> OnboardingStep list" where
  "loadHtmlFiles stepIds [] = []"
| "loadHtmlFiles stepIds ((file, c) # files) =
     (if fileStepId file \<in> set stepIds then loadHtmlFiles stepIds files
      else (case c of
              None \<Rightarrow> loadHtmlFiles stepIds files
            | Some c' \<Rightarrow> parseStepHTML c' file # loadHtmlFiles stepIds files))"

definition loadSteps :: "stepsDir \<Rightarrow> OnboardingStep list" where
  "loadSteps dir =
     (case dir of
        None \<Rightarrow> []
      | Some files \<Rightarrow>
          (let steps = loadMarkdownFiles (filter (\<lambda>f. endsWith ''.md'' (fst f)) files)
           in steps @ loadHtmlFiles (map step_id steps)
                        (filter (\<lambda>f. endsWith ''.html'' (fst f)) files)))"

text \<open>\<open>loadConfiguration\<close>: \<open>steps.sort((a, b) => a.id - b.id)\<close>, a stable sort.\<close>

definition loadConfiguration :: "stepsDir \<Rightarrow> OnboardingStep list" where
  "loadConfiguration dir = sort_key step_id (loadSteps dir)"

definition getAllSteps :: "stepsDir \<Rightarrow> OnboardingStep list" where
  "getAllSteps dir = loadConfiguration dir"

definition getStep :: "stepsDir \<Rightarrow> int \<Rightarrow> OnboardingStep option" where
  "getStep dir sid = find (\<lambda>step. step_id step = sid) (loadConfiguration dir)"

section \<open>Tool handlers (index.ts)\<close>

text \<open>
  Every handler takes the steps directory \<open>dir\<close>, the clock reading \<open>now\<close>, the outcome
  \<open>detected\<close> of the email detection and the data directory, and returns either the error
  it throws or its response together with the data directory it leaves. A response is
  the values its text is built from. All the clock readings of one call are the same
  \<open>now\<close>, and the steps directory does not change during a call. Step ids are
  integer-valued doubles.
\<close>

record CompleteStepArgs =
  csStepId :: "int option"
  csEmail :: "string option"
  csNotes :: "string option"
  csData :: "jsval option"

text \<open>
  The three \<open>return\<close> statements of \<open>handleCompleteStep\<close>: "Step s is already completed",
  "You must complete step c before moving to step s", and the completion message with the
  completed step and the upcoming one as \<open>getStep\<close> found them.
\<close>

datatype completeResponse =
    AlreadyCompleted int
  | OutOfOrder int int
  | Completed int "OnboardingStep option" "OnboardingStep option"

text \<open>\<open>args.stepId || profile.currentStep\<close>: an absent id and the id 0 give the current step.\<close>

definition stepToComplete :: "int option \<Rightarrow> EmployeeProfile \<Rightarrow> int" where
  "stepToComplete sid profile =
     (case sid of None \<Rightarrow> currentStep profile | Some n \<Rightarrow> if n = 0 then currentStep profile else n)"

text \<open>The object \<open>{ completedAt: ..., notes: args.notes, data: args.data }\<close>.\<close>

definition completionRecord :: "string \<Rightarrow> string option \<Rightarrow> jsval option \<Rightarrow> (string \<rightharpoonup> jsval)" where
  "completionRecord now n d =
     (\<lambda>k. if k = ''completedAt'' then Some (JStr now)
          else if k = ''notes'' then map_option JStr n
          else if k = ''data'' then d
          else None)"

definition handleCompleteStep ::
  "stepsDir \<Rightarrow> string \<Rightarrow> error + string \<Rightarrow> CompleteStepArgs \<Rightarrow> store
     \<Rightarrow> error + completeResponse \<times> store" where
  "handleCompleteStep dir now detected args st =
     (case getEmployeeProfile now detected (csEmail args) st of
        Inl err \<Rightarrow> Inl err
      | Inr (profile, st1) \<Rightarrow>
          (let s = stepToComplete (csStepId args) profile in
           if s \<in> set (completedSteps profile) then Inr (AlreadyCompleted s, st1)
           else if s \<noteq> currentStep profile then Inr (OutOfOrder (currentStep profile) s, st1)
           else
             (let profile1 = profile\<lparr>
                    completedSteps := completedSteps profile @ [s],
                    stepData := (stepData profile)(s \<mapsto> completionRecord now (csNotes args) (csData args)) \<rparr>;
                  allSteps = getAllSteps dir;
                  nextStep = find (\<lambda>step. step_id step > s) allSteps;
                  profile2 = profile1\<lparr>
                    currentStep := (case nextStep of Some step \<Rightarrow> step_id step | None \<Rightarrow> jsAdd s 1) \<rparr>;
                  (profile3, st2) = saveEmployeeProfile now profile2 st1;
                  completedStep = getStep dir s;
                  upcomingStep = getStep dir (currentStep profile3)
              in Inr (Completed s completedStep upcomingStep, st2))))"

text \<open>
  \<open>handleStartOnboarding\<close>: the welcome message names the employee, the number of steps,
  the current step and its document.
\<close>

datatype welcomeResponse = Welcome string nat int "OnboardingStep option"

definition handleStartOnboarding ::
  "stepsDir \<Rightarrow> string \<Rightarrow> error + string \<Rightarrow> StartOnboardingArgs \<Rightarrow> store
     \<Rightarrow> error + welcomeResponse \<times> store" where
  "handleStartOnboarding dir now detected args st =
     (case (case argEmail args of
              None \<Rightarrow> getEmployeeProfile now detected None st
            | Some e \<Rightarrow> if e = [] then getEmployeeProfile now detected None st
                        else Inr (createNewProfile now e (Some args) st)) of
        Inl err \<Rightarrow> Inl err
      | Inr (profile, st1) \<Rightarrow>
          Inr (Welcome (name profile) (length (getAllSteps dir)) (currentStep profile)
                 (getStep dir (currentStep profile)), st1))"

text \<open>
  \<open>handleRegisterEmployee\<close>: throws unless an email and a name are given; the response shows
  the registered profile.
\<close>

definition handleRegisterEmployee ::
  "string \<Rightarrow> StartOnboardingArgs \<Rightarrow> store \<Rightarrow> error + EmployeeProfile \<times> store" where
  "handleRegisterEmployee now args st =
     (case argEmail args of
        None \<Rightarrow> Inl EmailAndNameRequired
      | Some e \<Rightarrow>
          if e = [] then Inl EmailAndNameRequired
          else if orElse (argName args) [] = [] then Inl EmailAndNameRequired
          else Inr (createNewProfile now e (Some args) st))"

text \<open>
  \<open>handleRequestSAWDevice\<close>, of the version of \<open>index.ts\<close> that has the tool
  \<open>request_saw_device\<close>; that version completes a step by the same statements as above,
  with \<open>args.stepId\<close> for the step to complete. The tool's schema requires \<open>deviceType\<close>
  and \<open>managerEmail\<close>. \<open>nowMs\<close> is \<open>Date.now()\<close>, the clock in milliseconds, a number far
  below \<open>2^53\<close> that is written out in full; the response shows the request id, the device
  type and the manager's email.
\<close>

record SAWDeviceArgs =
  sawDeviceType :: string
  sawManagerEmail :: string
  sawEmail :: "string option"

datatype sawResponse = SAWSubmitted string string string

definition handleRequestSAWDevice ::
  "string \<Rightarrow> nat \<Rightarrow> error + string \<Rightarrow> SAWDeviceArgs \<Rightarrow> store \<Rightarrow> error + sawResponse \<times> store" where
  "handleRequestSAWDevice now nowMs detected args st =
     (case getEmployeeProfile now detected (sawEmail args) st of
        Inl err \<Rightarrow> Inl err
      | Inr (profile, st1) \<Rightarrow>
          (let requestId = ''SAW-'' @ decimal nowMs;
               entry = (case stepData profile 2 of None \<Rightarrow> Map.empty | Some r \<Rightarrow> r);
               entry' = entry(''sawRequestId'' \<mapsto> JStr requestId,
                              ''deviceType'' \<mapsto> JStr (sawDeviceType args),
                              ''managerEmail'' \<mapsto> JStr (sawManagerEmail args),
                              ''requestedAt'' \<mapsto> JStr now);
               profile' = profile\<lparr> stepData := (stepData profile)(2 \<mapsto> entry') \<rparr>;
               (profile'', st2) = saveEmployeeProfile now profile' st1
           in Inr (SAWSubmitted requestId (sawDeviceType args) (sawManagerEmail args), st2)))"

section \<open>What the specification expects\<close>

text \<open>
  The next step as the specification words it: the smallest configured step id strictly
  greater than the completed one, or the completed id plus one when there is none.
\<close>

definition spec_nextStepId :: "int set \<Rightarrow> int \<Rightarrow> int" where
  "spec_nextStepId ids s = (if \<exists>i\<in>ids. s < i then Min {i \<in> ids. s < i} else s + 1)"

text \<open>The same with the addition the program makes, on doubles.\<close>

definition code_nextStepId :: "int set \<Rightarrow> int \<Rightarrow> int" where
  "code_nextStepId ids s = (if \<exists>i\<in>ids. s < i then Min {i \<in> ids. s < i} else jsAdd s 1)"

text \<open>
  The derived name as the specification words it: the local part split on \<open>.\<close> or \<open>_\<close>,
  that is at every one of the two characters, each piece capitalized, the pieces joined
  with a space; without a separator, the whole local part capitalized.
\<close>

definition isSeparator :: "char \<Rightarrow> bool" where
  "isSeparator c = (c = CHR ''.'' \<or> c = CHR ''_'')"

fun split_any :: "(char \<Rightarrow> bool) \<Rightarrow> string \<Rightarrow> string list" where
  "split_any P [] = [[]]"
| "split_any P (x # xs) =
     (if P x then [] # split_any P xs
      else (case split_any P xs of
              [] \<Rightarrow> [[x]]
            | p # ps \<Rightarrow> (x # p) # ps))"

definition spec_derivedName :: "string \<Rightarrow> string" where
  "spec_derivedName e =
     (let lp = localPart e in
      if list_ex isSeparator lp then join '' '' (map capitalize (split_any isSeparator lp))
      else capitalize lp)"

text \<open>
  The invariants the specification's data model states for a profile: the current step is
  positive, the completed steps hold no duplicate, and the current step is not one of them.
\<close>

definition profileInvariants :: "EmployeeProfile \<Rightarrow> bool" where
  "profileInvariants p =
     (0 < currentStep p \<and> distinct (completedSteps p) \<and> currentStep p \<notin> set (completedSteps p))"

text \<open>Every completed step lies before the current one.\<close>

definition completedBelowCurrent :: "EmployeeProfile \<Rightarrow> bool" where
  "completedBelowCurrent p = list_all (\<lambda>c. c < currentStep p) (completedSteps p)"

section \<open>Concrete runs\<close>

text \<open>The response of a handler's outcome, and the data directory after it.\<close>

definition responseOf :: "error + 'r \<times> store \<Rightarrow> 'r option" where
  "responseOf r = (case r of Inl err \<Rightarrow> None | Inr (resp, st) \<Rightarrow> Some resp)"

definition storeAfter :: "store \<Rightarrow> error + 'r \<times> store \<Rightarrow> store" where
  "storeAfter st r = (case r of Inl err \<Rightarrow> st | Inr (resp, st') \<Rightarrow> st')"

text \<open>Three markdown steps with the ids 1, 2 and 3, listed out of order.\<close>

definition exampleDir :: stepsDir where
  "exampleDir = Some [(''step-2-b.md'', Some ''# B''), (''step-1-a.md'', Some ''# A''),
                      (''step-3-c.md'', Some ''# C'')]"

text \<open>An environment in which no email is detected.\<close>

definition undetected :: "error + string" where
  "undetected = Inl REGISTRATION_REQUIRED"

definition completeArgs :: "int \<Rightarrow> CompleteStepArgs" where
  "completeArgs n = \<lparr> csStepId = Some n, csEmail = Some ''jdoe@company.com'',
                      csNotes = None, csData = None \<rparr>"

text \<open>
  A fresh profile in an empty data directory, and the directory after completing the steps
  1, 2 and 3 in turn.
\<close>

definition profile0 :: EmployeeProfile where
  "profile0 = fst (createNewProfile ''t0'' ''jdoe@company.com'' None Map.empty)"

definition store0 :: store where
  "store0 = snd (createNewProfile ''t0'' ''jdoe@company.com'' None Map.empty)"

definition store1 :: store where
  "store1 = storeAfter store0 (handleCompleteStep exampleDir ''t1'' undetected (completeArgs 1) store0)"

definition store2 :: store where
  "store2 = storeAfter store1 (handleCompleteStep exampleDir ''t2'' undetected (completeArgs 2) store1)"

definition store3 :: store where
  "store3 = storeAfter store2 (handleCompleteStep exampleDir ''t3'' undetected (completeArgs 3) store2)"

text \<open>
  Two steps, the second with the id \<open>2^53\<close>, and the data directory of the fresh profile
  after completing the first and then the second.
\<close>

definition bigDir :: stepsDir where
  "bigDir = Some [(''step-1-a.md'', Some ''# A''), (''step-9007199254740992-z.md'', Some ''# Z'')]"

definition bigStore1 :: store where
  "bigStore1 = storeAfter store0 (handleCompleteStep bigDir ''t1'' undetected (completeArgs 1) store0)"

definition bigStore2 :: store where
  "bigStore2 =
     storeAfter bigStore1
       (handleCompleteStep bigDir ''t2'' undetected (completeArgs 9007199254740992) bigStore1)"

text \<open>
  A profile on step 1 whose file lists step 2 as completed, alone in its data directory.
\<close>

definition skippedProfile :: EmployeeProfile where
  "skippedProfile = profile0\<lparr> completedSteps := [2] \<rparr>"

definition skippedStore :: store where
  "skippedStore = [profilePath ''jdoe@company.com'' \<mapsto> skippedProfile]"

text \<open>Two markdown documents whose file names give the same id.\<close>

definition duplicateDir :: stepsDir where
  "duplicateDir = Some [(''step-1-a.md'', Some ''# A''), (''step-1-b.md'', Some ''# B'')]"

text \<open>A markdown and an HTML document for step 2, and an HTML document for step 5.\<close>

definition mixedDir :: stepsDir where
  "mixedDir = Some [(''step-2-x.html'', Some ''<h1>X</h1>''), (''step-5-y.html'', Some ''<h1>Y</h1>''),
                    (''step-2-x.md'', Some ''# X'')]"




text \<open>
  A device request made while step 2 is the current step, and the completion of step 2
  after it.
\<close>

definition sawArgs :: SAWDeviceArgs where
  "sawArgs = \<lparr> sawDeviceType = ''laptop'', sawManagerEmail = ''boss@company.com'',
               sawEmail = Some ''jdoe@company.com'' \<rparr>"

definition sawStore :: store where
  "sawStore = storeAfter store1 (handleRequestSAWDevice ''t2'' 1700 undetected sawArgs store1)"

definition sawCompletedStore :: store where
  "sawCompletedStore =
     storeAfter sawStore (handleCompleteStep exampleDir ''t3'' undetected (completeArgs 2) sawStore)"

text \<open>
  \<open>start_onboarding\<close> called again, with the email of the employee who has completed the
  steps 1 and 2.
\<close>

definition restartArgs :: StartOnboardingArgs where
  "restartArgs = \<lparr> argEmail = Some ''jdoe@company.com'', argName = Some ''John Doe'',
                   argBuddyEmail = Some ''buddy@company.com'', argDepartment = None \<rparr>"

definition restartedStore :: store where
  "restartedStore =
     storeAfter store2 (handleStartOnboarding exampleDir ''t9'' undetected restartArgs store2)"

text \<open>An employee registered under an email written with capital letters.\<close>

definition janeArgs :: StartOnboardingArgs where
  "janeArgs = \<lparr> argEmail = Some ''Jane.Roe@Corp.com'', argName = Some ''Janet Roe'',
                argBuddyEmail = None, argDepartment = None \<rparr>"

definition janeStore :: store where
  "janeStore = snd (createNewProfile ''t0'' ''Jane.Roe@Corp.com'' (Some janeArgs) Map.empty)"

section \<open>Properties\<close>

subsection \<open>Numbers\<close>

lemma exponentOf_below: "a < 9007199254740992 \<Longrightarrow> exponentOf a = 0"
  by (subst exponentOf.simps) simp

lemma exponentOf_above:
  "\<not> a < 9007199254740992 \<Longrightarrow> exponentOf a = Suc (exponentOf (a div 2))"
  by (subst exponentOf.simps) simp

lemma toDouble_small: "\<bar>n\<bar> \<le> 9007199254740992 \<Longrightarrow> toDouble n = n"
  by (simp add: toDouble_def)

lemma jsAdd_safe: "\<bar>s\<bar> < 9007199254740992 \<Longrightarrow> jsAdd s 1 = s + 1"
  by (simp add: jsAdd_def toDouble_small)

lemma jsAdd_two_53: "jsAdd 9007199254740992 1 = 9007199254740992"
  by (simp add: jsAdd_def toDouble_def exponentOf_below exponentOf_above Let_def)

subsection \<open>Strings\<close>

lemmas str_defs = extractNameFromEmail_def localPart_def capitalize_def toUpperCase_def
  toLowerCase_def toUpperChar_def toLowerChar_def lowerLetters_def upperLetters_def

lemma split_chr_not_Nil: "split_chr c s \<noteq> []"
  by (induction s) (auto split: list.splits)

lemma join_split_chr: "join [c] (split_chr c s) = s"
proof (induction s)
  case Nil
  show ?case by simp
next
  case (Cons x xs)
  obtain p ps where ps: "split_chr c xs = p # ps"
    using split_chr_not_Nil [of c xs] by (cases "split_chr c xs") auto
  show ?case
  proof (cases "x = c")
    case True
    with ps Cons show ?thesis by simp
  next
    case False
    with ps Cons show ?thesis by (cases ps) auto
  qed
qed

lemma split_chr_no_sep: "p \<in> set (split_chr c s) \<Longrightarrow> c \<notin> set p"
  by (induction s arbitrary: p) (auto split: if_splits list.splits)

lemma first_piece_takeWhile:
  "(case split_chr c s of [] \<Rightarrow> [] | p # ps \<Rightarrow> p) = takeWhile (\<lambda>x. x \<noteq> c) s"
  by (induction s) (auto split: list.splits)

lemma localPart_takeWhile: "localPart e = takeWhile (\<lambda>x. x \<noteq> CHR ''@'') e"
  by (simp add: localPart_def first_piece_takeWhile)

lemma includesStr_single: "includesStr [c] s = (c \<in> set s)"
  by (induction s) auto

subsection \<open>The derived display name\<close>

lemma split_any_single:
  "(\<forall>x\<in>set s. P x = (x = c)) \<Longrightarrow> split_any P s = split_chr c s"
  by (induction s) auto

lemma list_ex_isSeparator:
  "list_ex isSeparator s = (CHR ''.'' \<in> set s \<or> CHR ''_'' \<in> set s)"
  by (auto simp: list_ex_iff isSeparator_def)

lemma derived_name_refines:
  assumes "\<not> (CHR ''.'' \<in> set (localPart e) \<and> CHR ''_'' \<in> set (localPart e))"
  shows "extractNameFromEmail e = spec_derivedName e"
proof (cases "CHR ''.'' \<in> set (localPart e)")
  case True
  with assms have "\<forall>x\<in>set (localPart e). isSeparator x = (x = CHR ''.'')"
    by (auto simp: isSeparator_def)
  from split_any_single [OF this] True show ?thesis
    by (simp add: extractNameFromEmail_def spec_derivedName_def includesStr_single
        list_ex_isSeparator)
next
  case False
  show ?thesis
  proof (cases "CHR ''_'' \<in> set (localPart e)")
    case True
    with False have "\<forall>x\<in>set (localPart e). isSeparator x = (x = CHR ''_'')"
      by (auto simp: isSeparator_def)
    from split_any_single [OF this] True False show ?thesis
      by (simp add: extractNameFromEmail_def spec_derivedName_def includesStr_single
          list_ex_isSeparator)
  next
    case no: False
    with False show ?thesis
      by (simp add: extractNameFromEmail_def spec_derivedName_def includesStr_single
          list_ex_isSeparator)
  qed
qed

text \<open>
  A local part with both separators is split on \<open>.\<close> only: \<open>a.b_c@x.com\<close> gives the name
  A B_c, while splitting on \<open>.\<close> or \<open>_\<close> gives A B C. (Counterexample to C9 as stated.)
\<close>

theorem derived_name_both_separators_counterexample:
  "extractNameFromEmail ''a.b_c@x.com'' = ''A B_c''
   \<and> spec_derivedName ''a.b_c@x.com'' = ''A B C''"
  by (simp add: str_defs spec_derivedName_def isSeparator_def)

text \<open>
  C9, amended. The name derived from an email: the local part (the text before the first
  \<open>@\<close>) is split on \<open>.\<close> when it holds one, otherwise on \<open>_\<close> when it holds one; each
  piece gets a capital first letter and a lower-case rest, and the pieces are joined with
  a space; a local part with neither separator is capitalized as a whole. Splitting on \<open>c\<close>
  gives the pieces free of \<open>c\<close> that joined with \<open>c\<close> give the local part back. Unless the
  local part holds both separators, this is the name the specification words, split on
  either separator; with both, only \<open>.\<close> splits, so \<open>a.b_c@x.com\<close> gives A B_c. The three
  emails of the specification give Jane Doe, Jane Doe and Jdoe.
\<close>

theorem derived_name:
  "(CHR ''.'' \<in> set (localPart e) \<longrightarrow>
      extractNameFromEmail e = join '' '' (map capitalize (split_chr (CHR ''.'') (localPart e))))
   \<and> (CHR ''.'' \<notin> set (localPart e) \<and> CHR ''_'' \<in> set (localPart e) \<longrightarrow>
      extractNameFromEmail e = join '' '' (map capitalize (split_chr (CHR ''_'') (localPart e))))
   \<and> (CHR ''.'' \<notin> set (localPart e) \<and> CHR ''_'' \<notin> set (localPart e) \<longrightarrow>
      extractNameFromEmail e = capitalize (localPart e))
   \<and> localPart e = takeWhile (\<lambda>x. x \<noteq> CHR ''@'') e
   \<and> (\<forall>c. join [c] (split_chr c (localPart e)) = localPart e
          \<and> (\<forall>p \<in> set (split_chr c (localPart e)). c \<notin> set p))
   \<and> (\<forall>c cs. capitalize [] = [] \<and> capitalize (c # cs) = toUpperChar c # toLowerCase cs)
   \<and> (\<not> (CHR ''.'' \<in> set (localPart e) \<and> CHR ''_'' \<in> set (localPart e)) \<longrightarrow>
      extractNameFromEmail e = spec_derivedName e)
   \<and> extractNameFromEmail ''jane.doe@company.com'' = ''Jane Doe''
   \<and> extractNameFromEmail ''jane_doe@company.com'' = ''Jane Doe''
   \<and> extractNameFromEmail ''jdoe@company.com'' = ''Jdoe''
   \<and> extractNameFromEmail ''a.b_c@x.com'' = ''A B_c''"
proof -
  have a: "CHR ''.'' \<in> set (localPart e) \<longrightarrow>
      extractNameFromEmail e = join '' '' (map capitalize (split_chr (CHR ''.'') (localPart e)))"
    by (simp add: extractNameFromEmail_def includesStr_single)
  have b: "CHR ''.'' \<notin> set (localPart e) \<and> CHR ''_'' \<in> set (localPart e) \<longrightarrow>
      extractNameFromEmail e = join '' '' (map capitalize (split_chr (CHR ''_'') (localPart e)))"
    by (simp add: extractNameFromEmail_def includesStr_single)
  have c: "CHR ''.'' \<notin> set (localPart e) \<and> CHR ''_'' \<notin> set (localPart e) \<longrightarrow>
      extractNameFromEmail e = capitalize (localPart e)"
    by (simp add: extractNameFromEmail_def includesStr_single)
  have l: "localPart e = takeWhile (\<lambda>x. x \<noteq> CHR ''@'') e"
    by (rule localPart_takeWhile)
  have d: "\<forall>c. join [c] (split_chr c (localPart e)) = localPart e
          \<and> (\<forall>p \<in> set (split_chr c (localPart e)). c \<notin> set p)"
    by (simp add: join_split_chr split_chr_no_sep)
  have f: "\<forall>c cs. capitalize [] = [] \<and> capitalize (c # cs) = toUpperChar c # toLowerCase cs"
    by (simp add: capitalize_def toUpperCase_def toLowerCase_def)
  have r: "\<not> (CHR ''.'' \<in> set (localPart e) \<and> CHR ''_'' \<in> set (localPart e)) \<longrightarrow>
      extractNameFromEmail e = spec_derivedName e"
    by (rule impI) (rule derived_name_refines)
  have e1: "extractNameFromEmail ''jane.doe@company.com'' = ''Jane Doe''"
    by (simp add: str_defs)
  have e2: "extractNameFromEmail ''jane_doe@company.com'' = ''Jane Doe''"
    by (simp add: str_defs)
  have e3: "extractNameFromEmail ''jdoe@company.com'' = ''Jdoe''"
    by (simp add: str_defs)
  have e4: "extractNameFromEmail ''a.b_c@x.com'' = ''A B_c''"
    by (simp add: str_defs)
  show ?thesis
    by (intro conjI) (rule a b c l d f r e1 e2 e3 e4)+
qed

theorem derived_name_witness:
  "CHR ''.'' \<in> set (localPart ''jane.doe@company.com'')
   \<and> split_chr (CHR ''.'') (localPart ''jane.doe@company.com'') = [''jane'', ''doe'']
   \<and> extractNameFromEmail ''jane.doe@company.com''
       = join '' '' (map capitalize (split_chr (CHR ''.'') (localPart ''jane.doe@company.com'')))
   \<and> \<not> (CHR ''.'' \<in> set (localPart ''jane.doe@company.com'')
          \<and> CHR ''_'' \<in> set (localPart ''jane.doe@company.com''))
   \<and> extractNameFromEmail ''jane.doe@company.com'' = spec_derivedName ''jane.doe@company.com''
   \<and> CHR ''.'' \<notin> set (localPart ''jane_doe@company.com'')
   \<and> CHR ''_'' \<in> set (localPart ''jane_doe@company.com'')
   \<and> extractNameFromEmail ''jane_doe@company.com''
       = join '' '' (map capitalize (split_chr (CHR ''_'') (localPart ''jane_doe@company.com'')))
   \<and> CHR ''.'' \<notin> set (localPart ''jdoe@company.com'')
   \<and> CHR ''_'' \<notin> set (localPart ''jdoe@company.com'')
   \<and> extractNameFromEmail ''jdoe@company.com'' = capitalize (localPart ''jdoe@company.com'')
   \<and> CHR ''.'' \<in> set (localPart ''a.b_c@x.com'')
   \<and> CHR ''_'' \<in> set (localPart ''a.b_c@x.com'')
   \<and> split_chr (CHR ''.'') (localPart ''a.b_c@x.com'') = [''a'', ''b_c'']
   \<and> extractNameFromEmail ''a.b_c@x.com''
       = join '' '' (map capitalize (split_chr (CHR ''.'') (localPart ''a.b_c@x.com'')))"
proof -
  have h1: "CHR ''.'' \<in> set (localPart ''jane.doe@company.com'')"
    and n1: "\<not> (CHR ''.'' \<in> set (localPart ''jane.doe@company.com'')
          \<and> CHR ''_'' \<in> set (localPart ''jane.doe@company.com''))"
    and p1: "split_chr (CHR ''.'') (localPart ''jane.doe@company.com'') = [''jane'', ''doe'']"
    by (simp_all add: localPart_def)
  have h2: "CHR ''.'' \<notin> set (localPart ''jane_doe@company.com'')
          \<and> CHR ''_'' \<in> set (localPart ''jane_doe@company.com'')"
    by (simp add: localPart_def)
  have h3: "CHR ''.'' \<notin> set (localPart ''jdoe@company.com'')
          \<and> CHR ''_'' \<notin> set (localPart ''jdoe@company.com'')"
    by (simp add: localPart_def)
  have h4: "CHR ''.'' \<in> set (localPart ''a.b_c@x.com'')"
    and u4: "CHR ''_'' \<in> set (localPart ''a.b_c@x.com'')"
    and p4: "split_chr (CHR ''.'') (localPart ''a.b_c@x.com'') = [''a'', ''b_c'']"
    by (simp_all add: localPart_def)
  note c1 = derived_name [of "''jane.doe@company.com''", THEN conjunct1, rule_format, OF h1]
  note r1 = derived_name [of "''jane.doe@company.com''", THEN conjunct2, THEN conjunct2,
      THEN conjunct2, THEN conjunct2, THEN conjunct2, THEN conjunct2, THEN conjunct1,
      rule_format, OF n1]
  note c2 = derived_name [of "''jane_doe@company.com''", THEN conjunct2, THEN conjunct1,
      rule_format, OF h2]
  note c3 = derived_name [of "''jdoe@company.com''", THEN conjunct2, THEN conjunct2,
      THEN conjunct1, rule_format, OF h3]
  note c4 = derived_name [of "''a.b_c@x.com''", THEN conjunct1, rule_format, OF h4]
  show ?thesis
    by (intro conjI)
      (rule h1 p1 c1 n1 r1 h2 [THEN conjunct1] h2 [THEN conjunct2] c2 h3 [THEN conjunct1]
         h3 [THEN conjunct2] c3 h4 u4 p4 c4)+
qed

subsection \<open>Loading and sorting the steps\<close>

lemmas parse_defs = getAllSteps_def loadConfiguration_def loadSteps_def endsWith_def
  parseStepMarkdown_def parseStepHTML_def fileStepId_def isDigit_def parseInt_def toDouble_def
  digitValue_def
  matchHeaderAt_def dataRequiredAt_def isSpace_def isLineTerminator_def

lemmas handler_defs = handleCompleteStep_def handleStartOnboarding_def handleRequestSAWDevice_def
  getEmployeeProfile_def resolveEmail_def createNewProfile_def saveEmployeeProfile_def
  profilePath_def stepToComplete_def orElse_def Let_def

lemma sorted_getAllSteps: "sorted (map step_id (getAllSteps dir))"
  by (simp add: getAllSteps_def loadConfiguration_def)

lemma getStep_find: "getStep dir sid = find (\<lambda>step. step_id step = sid) (getAllSteps dir)"
  by (simp add: getStep_def getAllSteps_def)

lemma find_None_greater: "find (\<lambda>x. s < f x) xs = None \<Longrightarrow> \<not> (\<exists>i\<in>f ` set xs. s < i)"
  by (auto simp: find_None_iff)

lemma find_sorted_least:
  fixes f :: "'a \<Rightarrow> int"
  assumes "sorted (map f xs)" and "find (\<lambda>x. s < f x) xs = Some y"
  shows "f y = Min {i \<in> f ` set xs. s < i} \<and> (\<exists>i\<in>f ` set xs. s < i)"
  using assms
proof (induction xs)
  case Nil
  then show ?case by simp
next
  case (Cons x xs)
  show ?case
  proof (cases "s < f x")
    case True
    with Cons.prems have y: "y = x" by simp
    have le: "\<forall>z\<in>set xs. f x \<le> f z" using Cons.prems(1) by auto
    have "Min {i \<in> f ` set (x # xs). s < i} = f x"
    proof (rule Min_eqI)
      show "finite {i \<in> f ` set (x # xs). s < i}" by simp
      show "\<And>k. k \<in> {i \<in> f ` set (x # xs). s < i} \<Longrightarrow> f x \<le> k" using le by auto
      show "f x \<in> {i \<in> f ` set (x # xs). s < i}" using True by simp
    qed
    with y True show ?thesis by auto
  next
    case False
    with Cons.prems have fy: "find (\<lambda>x. s < f x) xs = Some y" by simp
    from Cons.prems(1) have "sorted (map f xs)" by simp
    from Cons.IH [OF this fy]
    have ih: "f y = Min {i \<in> f ` set xs. s < i}" and ex: "\<exists>i\<in>f ` set xs. s < i"
      by auto
    have "{i \<in> f ` set (x # xs). s < i} = {i \<in> f ` set xs. s < i}" using False by auto
    with ih ex show ?thesis by auto
  qed
qed

lemma next_step_code:
  "(case find (\<lambda>step. step_id step > s) (getAllSteps dir) of
      Some step \<Rightarrow> step_id step | None \<Rightarrow> jsAdd s 1)
     = code_nextStepId (step_id ` set (getAllSteps dir)) s"
proof (cases "find (\<lambda>step. s < step_id step) (getAllSteps dir)")
  case None
  from find_None_greater [OF None] None show ?thesis by (simp add: code_nextStepId_def)
next
  case (Some y)
  from find_sorted_least [OF sorted_getAllSteps Some] Some show ?thesis
    by (simp add: code_nextStepId_def)
qed

lemma code_nextStepId_safe:
  "\<bar>s\<bar> < 9007199254740992 \<Longrightarrow> code_nextStepId ids s = spec_nextStepId ids s"
  by (simp add: code_nextStepId_def spec_nextStepId_def jsAdd_safe)

lemma spec_nextStepId_greater:
  assumes "finite ids"
  shows "s < spec_nextStepId ids s"
proof (cases "\<exists>i\<in>ids. s < i")
  case True
  then have ne: "{i \<in> ids. s < i} \<noteq> {}" by auto
  have fin: "finite {i \<in> ids. s < i}" using assms by simp
  from Min_in [OF fin ne] have "s < Min {i \<in> ids. s < i}" by simp
  with True show ?thesis by (simp add: spec_nextStepId_def)
next
  case False
  then show ?thesis by (simp add: spec_nextStepId_def)
qed

lemma spec_nextStepId_member:
  assumes "finite ids" and "\<exists>i\<in>ids. s < i"
  shows "spec_nextStepId ids s \<in> ids"
proof -
  from assms(2) have ne: "{i \<in> ids. s < i} \<noteq> {}" by auto
  have fin: "finite {i \<in> ids. s < i}" using assms(1) by simp
  from Min_in [OF fin ne] assms(2) show ?thesis by (simp add: spec_nextStepId_def)
qed

subsection \<open>Completing a step\<close>

lemma handleCompleteStep_cases:
  assumes "getEmployeeProfile now detected (csEmail args) st = Inr (p, st1)"
  shows "handleCompleteStep dir now detected args st =
    (let s = stepToComplete (csStepId args) p in
     if s \<in> set (completedSteps p) then Inr (AlreadyCompleted s, st1)
     else if s \<noteq> currentStep p then Inr (OutOfOrder (currentStep p) s, st1)
     else Inr (Completed s (getStep dir s)
                 (getStep dir (code_nextStepId (step_id ` set (getAllSteps dir)) s)),
               st1(profilePath (email p) \<mapsto> p\<lparr>
                    completedSteps := completedSteps p @ [s],
                    stepData := (stepData p)(s \<mapsto> completionRecord now (csNotes args) (csData args)),
                    currentStep := code_nextStepId (step_id ` set (getAllSteps dir)) s,
                    lastUpdated := now \<rparr>)))"
  unfolding handleCompleteStep_def assms Let_def saveEmployeeProfile_def next_step_code
  by simp

lemma handleCompleteStep_Completed:
  assumes load: "getEmployeeProfile now detected (csEmail args) st = Inr (p, st1)"
    and res: "handleCompleteStep dir now detected args st = Inr (Completed s c u, st2)"
  shows "s = currentStep p \<and> s \<notin> set (completedSteps p)
       \<and> c = getStep dir s
       \<and> u = getStep dir (code_nextStepId (step_id ` set (getAllSteps dir)) s)
       \<and> st2 = st1(profilePath (email p) \<mapsto> p\<lparr>
                    completedSteps := completedSteps p @ [s],
                    stepData := (stepData p)(s \<mapsto> completionRecord now (csNotes args) (csData args)),
                    currentStep := code_nextStepId (step_id ` set (getAllSteps dir)) s,
                    lastUpdated := now \<rparr>)"
  using res unfolding handleCompleteStep_cases [OF load] Let_def
  by (auto split: if_splits)


subsection \<open>The concrete runs, evaluated\<close>

lemma exampleDir_steps: "getAllSteps exampleDir =
   [\<lparr>step_id = 1, required = True, content = ''# A'', isMarkdown = True\<rparr>,
    \<lparr>step_id = 2, required = True, content = ''# B'', isMarkdown = True\<rparr>,
    \<lparr>step_id = 3, required = True, content = ''# C'', isMarkdown = True\<rparr>]"
  by (simp add: exampleDir_def parse_defs)

lemma exampleDir_getStep:
  "getStep exampleDir 1 = Some \<lparr>step_id = 1, required = True, content = ''# A'', isMarkdown = True\<rparr>"
  "getStep exampleDir 2 = Some \<lparr>step_id = 2, required = True, content = ''# B'', isMarkdown = True\<rparr>"
  "getStep exampleDir 3 = Some \<lparr>step_id = 3, required = True, content = ''# C'', isMarkdown = True\<rparr>"
  "getStep exampleDir 4 = None"
  by (simp_all add: getStep_find exampleDir_steps)

lemma profile0_eq: "profile0 = \<lparr>email = ''jdoe@company.com'', name = ''Jdoe'',
     startDate = ''t0'', buddyEmail = None, department = None, currentStep = 1, completedSteps = [],
     stepData = Map.empty, createdAt = ''t0'', lastUpdated = ''t0'', version = ''1.0''\<rparr>"
  by (simp add: profile0_def handler_defs str_defs)

lemma store0_eq: "store0 = [''jdoe@company.com.json'' \<mapsto> profile0]"
  by (simp add: store0_def profile0_def handler_defs str_defs)

lemma load_jdoe:
  "st ''jdoe@company.com.json'' = Some p \<Longrightarrow>
   getEmployeeProfile now undetected (Some ''jdoe@company.com'') st = Inr (p, st)"
  by (simp add: getEmployeeProfile_def resolveEmail_def profilePath_def)

lemma store1_eq: "store1 = [''jdoe@company.com.json'' \<mapsto> profile0\<lparr>
     completedSteps := [1], stepData := [1 \<mapsto> completionRecord ''t1'' None None],
     currentStep := 2, lastUpdated := ''t1''\<rparr>]"
  unfolding store1_def
  by (simp add: handleCompleteStep_def load_jdoe store0_eq completeArgs_def profile0_eq
      stepToComplete_def saveEmployeeProfile_def Let_def exampleDir_steps exampleDir_getStep 
      storeAfter_def profilePath_def)

lemma store2_eq: "store2 = [''jdoe@company.com.json'' \<mapsto> profile0\<lparr>
     completedSteps := [1, 2],
     stepData := [1 \<mapsto> completionRecord ''t1'' None None, 2 \<mapsto> completionRecord ''t2'' None None],
     currentStep := 3, lastUpdated := ''t2''\<rparr>]"
  unfolding store2_def
  by (simp add: handleCompleteStep_def load_jdoe store1_eq completeArgs_def profile0_eq
      stepToComplete_def saveEmployeeProfile_def Let_def exampleDir_steps exampleDir_getStep 
      storeAfter_def profilePath_def)

lemma store3_eq: "store3 = [''jdoe@company.com.json'' \<mapsto> profile0\<lparr>
     completedSteps := [1, 2, 3],
     stepData := [1 \<mapsto> completionRecord ''t1'' None None, 2 \<mapsto> completionRecord ''t2'' None None,
                  3 \<mapsto> completionRecord ''t3'' None None],
     currentStep := 4, lastUpdated := ''t3''\<rparr>]"
  unfolding store3_def
  by (simp add: handleCompleteStep_def load_jdoe store2_eq completeArgs_def profile0_eq
      stepToComplete_def saveEmployeeProfile_def Let_def exampleDir_steps exampleDir_getStep 
      storeAfter_def profilePath_def jsAdd_safe)


lemma getStep_id: "getStep dir n = Some x \<Longrightarrow> step_id x = n"
  by (auto simp: getStep_find find_Some_iff)

lemma getStep_next:
  fixes dir s
  defines "ids \<equiv> step_id ` set (getAllSteps dir)"
  defines "u \<equiv> getStep dir (spec_nextStepId ids s)"
  shows "(u = None) = (\<not> (\<exists>i\<in>ids. s < i))"
proof -
  have fin: "finite ids" by (simp add: ids_def)
  show "(u = None) = (\<not> (\<exists>i\<in>ids. s < i))"
  proof (cases "\<exists>i\<in>ids. s < i")
    case True
    from spec_nextStepId_member [OF fin True] have "spec_nextStepId ids s \<in> ids" .
    then have "u \<noteq> None" by (auto simp: u_def getStep_find find_None_iff ids_def)
    with True show ?thesis by simp
  next
    case False
    then have nxt: "spec_nextStepId ids s = s + 1" by (simp add: spec_nextStepId_def)
    have "u = None"
    proof (rule ccontr)
      assume "u \<noteq> None"
      then obtain x where "x \<in> set (getAllSteps dir)" and "step_id x = s + 1"
        by (auto simp: u_def getStep_find find_None_iff nxt)
      then have "s < step_id x" and "step_id x \<in> ids" unfolding ids_def by (simp, blast)
      then have "\<exists>i\<in>ids. s < i" by blast
      with False show False by simp
    qed
    with False show ?thesis by simp
  qed
qed

lemma exampleDir_ids: "step_id ` set (getAllSteps exampleDir) = {1, 2, 3}"
  by (simp add: exampleDir_steps)

subsection \<open>The next step\<close>

lemma bigDir_steps: "getAllSteps bigDir =
   [\<lparr>step_id = 1, required = True, content = ''# A'', isMarkdown = True\<rparr>,
    \<lparr>step_id = 9007199254740992, required = True, content = ''# Z'', isMarkdown = True\<rparr>]"
  by (simp add: bigDir_def parse_defs)

lemma bigDir_getStep:
  "getStep bigDir 1 = Some \<lparr>step_id = 1, required = True, content = ''# A'', isMarkdown = True\<rparr>"
  "getStep bigDir 9007199254740992
     = Some \<lparr>step_id = 9007199254740992, required = True, content = ''# Z'', isMarkdown = True\<rparr>"
  by (simp_all add: getStep_find bigDir_steps)

lemma bigStore1_eq: "bigStore1 = [''jdoe@company.com.json'' \<mapsto> profile0\<lparr>
     completedSteps := [1], stepData := [1 \<mapsto> completionRecord ''t1'' None None],
     currentStep := 9007199254740992, lastUpdated := ''t1''\<rparr>]"
  unfolding bigStore1_def
  by (simp add: handleCompleteStep_def load_jdoe store0_eq completeArgs_def profile0_eq
      stepToComplete_def saveEmployeeProfile_def Let_def bigDir_steps bigDir_getStep
      storeAfter_def profilePath_def)

lemma bigRun2:
  "handleCompleteStep bigDir ''t2'' undetected (completeArgs 9007199254740992) bigStore1
     = Inr (Completed 9007199254740992 (getStep bigDir 9007199254740992)
              (getStep bigDir 9007199254740992),
            [''jdoe@company.com.json'' \<mapsto> profile0\<lparr>
               completedSteps := [1, 9007199254740992],
               stepData := [1 \<mapsto> completionRecord ''t1'' None None,
                            9007199254740992 \<mapsto> completionRecord ''t2'' None None],
               currentStep := 9007199254740992, lastUpdated := ''t2''\<rparr>])"
  by (simp add: handleCompleteStep_def load_jdoe bigStore1_eq completeArgs_def profile0_eq
      stepToComplete_def saveEmployeeProfile_def Let_def bigDir_steps bigDir_getStep
      profilePath_def jsAdd_two_53)

lemma bigStore2_eq: "bigStore2 = [''jdoe@company.com.json'' \<mapsto> profile0\<lparr>
     completedSteps := [1, 9007199254740992],
     stepData := [1 \<mapsto> completionRecord ''t1'' None None,
                  9007199254740992 \<mapsto> completionRecord ''t2'' None None],
     currentStep := 9007199254740992, lastUpdated := ''t2''\<rparr>]"
  unfolding bigStore2_def bigRun2 by (simp add: storeAfter_def)

text \<open>
  With the steps 1 and \<open>2^53\<close>, completing step 1 and then step \<open>2^53\<close> leaves the current
  step \<open>2^53\<close>, not \<open>2^53 + 1\<close>: the addition of the program is on doubles, and
  \<open>2^53 + 1\<close> is \<open>2^53\<close> there. No greater id is configured, yet the response names
  step \<open>2^53\<close> as the next one. (Counterexample to C4 as stated.)
\<close>

theorem next_step_two_53_counterexample:
  "map step_id (getAllSteps bigDir) = [1, 9007199254740992]
   \<and> map_option currentStep (bigStore1 ''jdoe@company.com.json'') = Some 9007199254740992
   \<and> responseOf
        (handleCompleteStep bigDir ''t2'' undetected (completeArgs 9007199254740992) bigStore1)
        = Some (Completed 9007199254740992 (getStep bigDir 9007199254740992)
                  (getStep bigDir 9007199254740992))
   \<and> map_option step_id (getStep bigDir 9007199254740992) = Some 9007199254740992
   \<and> map_option currentStep (bigStore2 ''jdoe@company.com.json'') = Some 9007199254740992
   \<and> spec_nextStepId (step_id ` set (getAllSteps bigDir)) 9007199254740992 = 9007199254740993"
  unfolding bigRun2
  by (simp add: bigDir_steps bigDir_getStep bigStore1_eq bigStore2_eq responseOf_def
      spec_nextStepId_def)

text \<open>
  C4, amended. On every successful completion the current step becomes the smallest
  configured step id strictly greater than the completed one, or, when there is none, the
  completed id plus one as the addition on doubles gives it. For a completed id below
  \<open>2^53\<close> in absolute value that is the completed id plus one, and the response names a
  next step exactly when a greater id is configured; a next step named is the step with
  the new current id. With the steps 1, 2, 3 and a fresh profile: completing 3 is out of
  order; completing 1 gives the next step 2; then completing 2 gives the next step 3; then
  completing 3 gives no next step and leaves the current step 4.
\<close>

theorem complete_step_next_step:
  "(\<forall>p st1 s c u st2.
      getEmployeeProfile now detected (csEmail args) st = Inr (p, st1)
      \<and> handleCompleteStep dir now detected args st = Inr (Completed s c u, st2) \<longrightarrow>
      (\<exists>p'. st2 (profilePath (email p)) = Some p'
         \<and> s = currentStep p
         \<and> currentStep p' = code_nextStepId (step_id ` set (getAllSteps dir)) s
         \<and> u = getStep dir (currentStep p')
         \<and> (\<forall>x. u = Some x \<longrightarrow> step_id x = currentStep p')
         \<and> (\<bar>s\<bar> < 9007199254740992 \<longrightarrow>
               currentStep p' = spec_nextStepId (step_id ` set (getAllSteps dir)) s
               \<and> (u = None) = (\<not> (\<exists>i \<in> step_id ` set (getAllSteps dir). s < i)))))
   \<and> step_id ` set (getAllSteps exampleDir) = {1, 2, 3}
   \<and> map_option currentStep (store0 ''jdoe@company.com.json'') = Some 1
   \<and> map_option completedSteps (store0 ''jdoe@company.com.json'') = Some []
   \<and> handleCompleteStep exampleDir ''t1'' undetected (completeArgs 3) store0
        = Inr (OutOfOrder 1 3, store0)
   \<and> responseOf (handleCompleteStep exampleDir ''t1'' undetected (completeArgs 1) store0)
        = Some (Completed 1 (getStep exampleDir 1) (getStep exampleDir 2))
   \<and> map_option step_id (getStep exampleDir 2) = Some 2
   \<and> responseOf (handleCompleteStep exampleDir ''t2'' undetected (completeArgs 2) store1)
        = Some (Completed 2 (getStep exampleDir 2) (getStep exampleDir 3))
   \<and> map_option step_id (getStep exampleDir 3) = Some 3
   \<and> responseOf (handleCompleteStep exampleDir ''t3'' undetected (completeArgs 3) store2)
        = Some (Completed 3 (getStep exampleDir 3) None)
   \<and> map_option currentStep (store3 ''jdoe@company.com.json'') = Some 4"
proof -
  have general: "\<forall>p st1 s c u st2.
      getEmployeeProfile now detected (csEmail args) st = Inr (p, st1)
      \<and> handleCompleteStep dir now detected args st = Inr (Completed s c u, st2) \<longrightarrow>
      (\<exists>p'. st2 (profilePath (email p)) = Some p'
         \<and> s = currentStep p
         \<and> currentStep p' = code_nextStepId (step_id ` set (getAllSteps dir)) s
         \<and> u = getStep dir (currentStep p')
         \<and> (\<forall>x. u = Some x \<longrightarrow> step_id x = currentStep p')
         \<and> (\<bar>s\<bar> < 9007199254740992 \<longrightarrow>
               currentStep p' = spec_nextStepId (step_id ` set (getAllSteps dir)) s
               \<and> (u = None) = (\<not> (\<exists>i \<in> step_id ` set (getAllSteps dir). s < i))))"
  proof (intro allI impI, elim conjE)
    fix p st1 s c u st2
    assume load: "getEmployeeProfile now detected (csEmail args) st = Inr (p, st1)"
      and res: "handleCompleteStep dir now detected args st = Inr (Completed s c u, st2)"
    note facts = handleCompleteStep_Completed [OF load res]
    define p' where "p' = p\<lparr>
                    completedSteps := completedSteps p @ [s],
                    stepData := (stepData p)(s \<mapsto> completionRecord now (csNotes args) (csData args)),
                    currentStep := code_nextStepId (step_id ` set (getAllSteps dir)) s,
                    lastUpdated := now \<rparr>"
    have cur: "currentStep p' = code_nextStepId (step_id ` set (getAllSteps dir)) s"
      by (simp add: p'_def)
    from facts have "st2 = st1(profilePath (email p) \<mapsto> p')" unfolding p'_def by blast
    then have stored: "st2 (profilePath (email p)) = Some p'" by simp
    from facts have s: "s = currentStep p" by blast
    from facts have "u = getStep dir (code_nextStepId (step_id ` set (getAllSteps dir)) s)"
      by blast
    then have u: "u = getStep dir (currentStep p')" using cur by simp
    have ids: "\<forall>x. u = Some x \<longrightarrow> step_id x = currentStep p'"
      unfolding u by (auto dest: getStep_id)
    have safe: "\<bar>s\<bar> < 9007199254740992 \<longrightarrow>
               currentStep p' = spec_nextStepId (step_id ` set (getAllSteps dir)) s
               \<and> (u = None) = (\<not> (\<exists>i \<in> step_id ` set (getAllSteps dir). s < i))"
    proof
      assume b: "\<bar>s\<bar> < 9007199254740992"
      have eq: "currentStep p' = spec_nextStepId (step_id ` set (getAllSteps dir)) s"
        unfolding cur by (rule code_nextStepId_safe [OF b])
      have "(u = None) = (\<not> (\<exists>i \<in> step_id ` set (getAllSteps dir). s < i))"
        unfolding u eq by (rule getStep_next)
      with eq show "currentStep p' = spec_nextStepId (step_id ` set (getAllSteps dir)) s
               \<and> (u = None) = (\<not> (\<exists>i \<in> step_id ` set (getAllSteps dir). s < i))"
        by (rule conjI)
    qed
    show "\<exists>p'. st2 (profilePath (email p)) = Some p'
         \<and> s = currentStep p
         \<and> currentStep p' = code_nextStepId (step_id ` set (getAllSteps dir)) s
         \<and> u = getStep dir (currentStep p')
         \<and> (\<forall>x. u = Some x \<longrightarrow> step_id x = currentStep p')
         \<and> (\<bar>s\<bar> < 9007199254740992 \<longrightarrow>
               currentStep p' = spec_nextStepId (step_id ` set (getAllSteps dir)) s
               \<and> (u = None) = (\<not> (\<exists>i \<in> step_id ` set (getAllSteps dir). s < i)))"
      using stored s cur u ids safe by - (intro exI [of _ p'] conjI, assumption+)
  qed
  have s0: "map_option currentStep (store0 ''jdoe@company.com.json'') = Some 1"
    "map_option completedSteps (store0 ''jdoe@company.com.json'') = Some []"
    by (simp_all add: store0_eq profile0_eq)
  have r0: "handleCompleteStep exampleDir ''t1'' undetected (completeArgs 3) store0
        = Inr (OutOfOrder 1 3, store0)"
    by (simp add: handleCompleteStep_def load_jdoe store0_eq completeArgs_def profile0_eq
      stepToComplete_def)
  have r1: "responseOf (handleCompleteStep exampleDir ''t1'' undetected (completeArgs 1) store0)
        = Some (Completed 1 (getStep exampleDir 1) (getStep exampleDir 2))"
    by (simp add: handleCompleteStep_def load_jdoe store0_eq completeArgs_def profile0_eq
      stepToComplete_def saveEmployeeProfile_def Let_def exampleDir_steps responseOf_def)
  have r2: "responseOf (handleCompleteStep exampleDir ''t2'' undetected (completeArgs 2) store1)
        = Some (Completed 2 (getStep exampleDir 2) (getStep exampleDir 3))"
    by (simp add: handleCompleteStep_def load_jdoe store1_eq completeArgs_def profile0_eq
      stepToComplete_def saveEmployeeProfile_def Let_def exampleDir_steps responseOf_def)
  have r3: "responseOf (handleCompleteStep exampleDir ''t3'' undetected (completeArgs 3) store2)
        = Some (Completed 3 (getStep exampleDir 3) None)"
    by (simp add: handleCompleteStep_def load_jdoe store2_eq completeArgs_def profile0_eq
      stepToComplete_def saveEmployeeProfile_def Let_def exampleDir_steps exampleDir_getStep
      responseOf_def jsAdd_safe)
  have g: "map_option step_id (getStep exampleDir 2) = Some 2"
    "map_option step_id (getStep exampleDir 3) = Some 3"
    by (simp_all add: exampleDir_getStep)
  have s3: "map_option currentStep (store3 ''jdoe@company.com.json'') = Some 4"
    by (simp add: store3_eq)
  show ?thesis
    by (intro conjI) (rule general exampleDir_ids s0 r0 r1 r2 r3 g s3)+
qed

theorem complete_step_next_step_witness:
  "getEmployeeProfile ''t1'' undetected (csEmail (completeArgs 1)) store0 = Inr (profile0, store0)
   \<and> handleCompleteStep exampleDir ''t1'' undetected (completeArgs 1) store0
       = Inr (Completed 1 (getStep exampleDir 1) (getStep exampleDir 2), store1)
   \<and> \<bar>1 :: int\<bar> < 9007199254740992
   \<and> map_option currentStep (store1 (profilePath (email profile0)))
       = Some (spec_nextStepId (step_id ` set (getAllSteps exampleDir)) 1)
   \<and> spec_nextStepId (step_id ` set (getAllSteps exampleDir)) 1 = 2
   \<and> getStep exampleDir 2 \<noteq> None"
proof -
  have l0: "getEmployeeProfile ''t1'' undetected (csEmail (completeArgs 1)) store0
              = Inr (profile0, store0)"
    by (simp add: completeArgs_def load_jdoe store0_eq)
  have r1: "handleCompleteStep exampleDir ''t1'' undetected (completeArgs 1) store0
       = Inr (Completed 1 (getStep exampleDir 1) (getStep exampleDir 2), store1)"
    unfolding store1_eq
    by (simp add: handleCompleteStep_def load_jdoe store0_eq completeArgs_def profile0_eq
      stepToComplete_def saveEmployeeProfile_def Let_def exampleDir_steps exampleDir_getStep
      profilePath_def)
  have cur: "map_option currentStep (store1 (profilePath (email profile0))) = Some 2"
    by (simp add: store1_eq profile0_eq profilePath_def)
  have b: "\<bar>1 :: int\<bar> < 9007199254740992" by simp
  note inst = complete_step_next_step [of "''t1''" undetected "completeArgs 1" store0 exampleDir,
      THEN conjunct1, rule_format, OF conjI [OF l0 r1]]
  have "\<exists>p'. store1 (profilePath (email profile0)) = Some p'
          \<and> currentStep p' = spec_nextStepId (step_id ` set (getAllSteps exampleDir)) 1"
    using inst
    apply (elim exE conjE)
    apply (erule impE)
     apply (rule b)
    apply (erule conjE)
    apply (rule exI, rule conjI, assumption, assumption)
    done
  then obtain p' where p': "store1 (profilePath (email profile0)) = Some p'"
    and nxt: "currentStep p' = spec_nextStepId (step_id ` set (getAllSteps exampleDir)) 1"
    by (elim exE conjE)
  from p' nxt cur have two: "spec_nextStepId (step_id ` set (getAllSteps exampleDir)) 1 = 2"
    by simp
  have some: "getStep exampleDir 2 \<noteq> None" by (simp add: exampleDir_getStep)
  from l0 r1 b cur two some show ?thesis by simp
qed

subsection \<open>The current step after a completion\<close>

text \<open>
  A profile can satisfy the invariants the specification states and still lose them:
  with step 2 listed as completed while step 1 is current, completing step 1 makes step 2
  the current step, a completed one. (Counterexample to C5 as stated.)
\<close>

theorem current_step_completed_counterexample:
  "profileInvariants skippedProfile
   \<and> skippedStore (profilePath ''jdoe@company.com'') = Some skippedProfile
   \<and> responseOf (handleCompleteStep exampleDir ''t1'' undetected (completeArgs 1) skippedStore)
        = Some (Completed 1 (getStep exampleDir 1) (getStep exampleDir 2))
   \<and> map_option currentStep
        (storeAfter skippedStore
           (handleCompleteStep exampleDir ''t1'' undetected (completeArgs 1) skippedStore)
           (profilePath ''jdoe@company.com'')) = Some 2
   \<and> map_option completedSteps
        (storeAfter skippedStore
           (handleCompleteStep exampleDir ''t1'' undetected (completeArgs 1) skippedStore)
           (profilePath ''jdoe@company.com'')) = Some [2, 1]
   \<and> map_option (\<lambda>p. currentStep p \<in> set (completedSteps p))
        (storeAfter skippedStore
           (handleCompleteStep exampleDir ''t1'' undetected (completeArgs 1) skippedStore)
           (profilePath ''jdoe@company.com'')) = Some True"
proof -
  have inv: "profileInvariants skippedProfile"
    by (simp add: profileInvariants_def skippedProfile_def profile0_eq)
  have st: "skippedStore ''jdoe@company.com.json'' = Some skippedProfile"
    by (simp add: skippedStore_def profilePath_def)
  have run: "handleCompleteStep exampleDir ''t1'' undetected (completeArgs 1) skippedStore
    = Inr (Completed 1 (getStep exampleDir 1) (getStep exampleDir 2),
           skippedStore(''jdoe@company.com.json'' \<mapsto> profile0\<lparr>
             completedSteps := [2, 1], stepData := [1 \<mapsto> completionRecord ''t1'' None None],
             currentStep := 2, lastUpdated := ''t1''\<rparr>))"
    by (simp add: handleCompleteStep_def load_jdoe [of skippedStore skippedProfile, OF st] completeArgs_def skippedProfile_def
      profile0_eq stepToComplete_def saveEmployeeProfile_def Let_def exampleDir_steps
      exampleDir_getStep profilePath_def)
  show ?thesis
    unfolding run by (simp add: inv st profilePath_def responseOf_def storeAfter_def)
qed

lemma completedBelowCurrent_iff:
  "completedBelowCurrent p = (\<forall>c\<in>set (completedSteps p). c < currentStep p)"
  by (simp add: completedBelowCurrent_def list_all_iff)

lemma code_nextStepId_greater:
  assumes "finite ids" and "\<bar>s\<bar> < 9007199254740992"
  shows "s < code_nextStepId ids s"
  using spec_nextStepId_greater [OF assms(1), of s] code_nextStepId_safe [OF assms(2), of ids]
  by simp

text \<open>
  The bound on the current step is needed: after completing the steps 1 and \<open>2^53\<close> the
  current step is still \<open>2^53\<close>, a completed step.
\<close>

lemma current_step_completed_at_two_53:
  "map_option (\<lambda>p. completedBelowCurrent p \<and> profileInvariants p)
      (bigStore1 ''jdoe@company.com.json'') = Some True
   \<and> map_option completedSteps (bigStore2 ''jdoe@company.com.json'') = Some [1, 9007199254740992]
   \<and> map_option (\<lambda>p. currentStep p \<in> set (completedSteps p))
        (bigStore2 ''jdoe@company.com.json'') = Some True"
  by (simp add: bigStore1_eq bigStore2_eq completedBelowCurrent_def profileInvariants_def)

text \<open>
  C5, amended. For every profile whose completed steps all lie before its current step,
  and whose current step is below \<open>2^53\<close> in absolute value, after a successful completion
  the new current step is not among the completed steps; the completed steps again all
  lie before it, and the stated invariants are kept. Every fresh profile is of this kind,
  and the handlers keep the completed steps before the current one as long as the step
  ids stay below \<open>2^53\<close>.
\<close>

theorem current_step_not_completed:
  assumes load: "getEmployeeProfile now detected (csEmail args) st = Inr (p, st1)"
    and below: "completedBelowCurrent p"
    and safe: "\<bar>currentStep p\<bar> < 9007199254740992"
    and res: "handleCompleteStep dir now detected args st = Inr (Completed s c u, st2)"
  shows "\<exists>p'. st2 (profilePath (email p)) = Some p'
           \<and> currentStep p' \<notin> set (completedSteps p')
           \<and> completedBelowCurrent p'
           \<and> (profileInvariants p \<longrightarrow> profileInvariants p')"
proof -
  note facts = handleCompleteStep_Completed [OF load res]
  define n where "n = code_nextStepId (step_id ` set (getAllSteps dir)) s"
  define p' where "p' = p\<lparr>
                    completedSteps := completedSteps p @ [s],
                    stepData := (stepData p)(s \<mapsto> completionRecord now (csNotes args) (csData args)),
                    currentStep := n,
                    lastUpdated := now \<rparr>"
  from facts have s: "s = currentStep p" by blast
  from facts have fresh: "s \<notin> set (completedSteps p)" by blast
  have gt: "s < n" unfolding n_def using safe by (intro code_nextStepId_greater) (simp_all add: s)
  from facts have "st2 = st1(profilePath (email p) \<mapsto> p')" unfolding p'_def n_def by blast
  then have stored: "st2 (profilePath (email p)) = Some p'" by simp
  have bel: "\<forall>c\<in>set (completedSteps p). c < s"
    using below s by (simp add: completedBelowCurrent_iff)
  have bel': "completedBelowCurrent p'"
    using bel gt by (auto simp: completedBelowCurrent_iff p'_def)
  then have notin: "currentStep p' \<notin> set (completedSteps p')"
    by (auto simp: completedBelowCurrent_iff)
  have inv: "profileInvariants p \<longrightarrow> profileInvariants p'"
    using gt s fresh notin by (auto simp: profileInvariants_def p'_def)
  from stored notin bel' inv show ?thesis by blast
qed

theorem current_step_not_completed_witness:
  "getEmployeeProfile ''t2'' undetected (csEmail (completeArgs 2)) store1
      = Inr (the (store1 ''jdoe@company.com.json''), store1)
   \<and> completedBelowCurrent (the (store1 ''jdoe@company.com.json''))
   \<and> \<bar>currentStep (the (store1 ''jdoe@company.com.json''))\<bar> < 9007199254740992
   \<and> profileInvariants (the (store1 ''jdoe@company.com.json''))
   \<and> handleCompleteStep exampleDir ''t2'' undetected (completeArgs 2) store1
       = Inr (Completed 2 (getStep exampleDir 2) (getStep exampleDir 3), store2)
   \<and> (\<exists>p'. store2 ''jdoe@company.com.json'' = Some p' \<and> currentStep p' \<notin> set (completedSteps p')
           \<and> profileInvariants p')"
proof -
  define p1 where "p1 = the (store1 ''jdoe@company.com.json'')"
  have p1: "store1 ''jdoe@company.com.json'' = Some p1" by (simp add: p1_def store1_eq)
  have l1: "getEmployeeProfile ''t2'' undetected (csEmail (completeArgs 2)) store1 = Inr (p1, store1)"
    by (simp add: completeArgs_def load_jdoe [of store1 p1, OF p1])
  have b1: "completedBelowCurrent p1"
    by (simp add: p1_def store1_eq completedBelowCurrent_def)
  have s1: "\<bar>currentStep p1\<bar> < 9007199254740992"
    by (simp add: p1_def store1_eq)
  have r2: "handleCompleteStep exampleDir ''t2'' undetected (completeArgs 2) store1
       = Inr (Completed 2 (getStep exampleDir 2) (getStep exampleDir 3), store2)"
    unfolding store2_eq
    by (simp add: handleCompleteStep_def load_jdoe store1_eq completeArgs_def profile0_eq
      stepToComplete_def saveEmployeeProfile_def Let_def exampleDir_steps exampleDir_getStep
      profilePath_def)
  have e1: "profilePath (email p1) = ''jdoe@company.com.json''"
    by (simp add: p1_def store1_eq profile0_eq profilePath_def)
  have i1: "profileInvariants p1"
    by (simp add: p1_def store1_eq profileInvariants_def)
  from current_step_not_completed [OF l1 b1 s1 r2] i1
  have "\<exists>p'. store2 ''jdoe@company.com.json'' = Some p' \<and> currentStep p' \<notin> set (completedSteps p')
           \<and> profileInvariants p'"
    unfolding e1 by blast
  with l1 b1 s1 i1 r2 show ?thesis unfolding p1_def by blast
qed

text \<open>A fresh profile has no completed step, so all of them lie before the current one.\<close>

lemma createNewProfile_below:
  "completedBelowCurrent (fst (createNewProfile now e info st))
   \<and> profileInvariants (fst (createNewProfile now e info st))"
  by (simp add: createNewProfile_def saveEmployeeProfile_def Let_def completedBelowCurrent_def
      profileInvariants_def)

subsection \<open>Requesting a device\<close>

text \<open>
  C10. \<open>request_saw_device\<close> records the request under the step id 2, whatever the
  current step is: the record of step 2 gets \<open>sawRequestId\<close>, \<open>deviceType\<close>, \<open>managerEmail\<close>
  and \<open>requestedAt\<close>, keeps its other fields (it is created when absent), and the profile
  is saved with every other step's record, the completed steps and the current step as
  they were; only \<open>lastUpdated\<close> changes besides.
\<close>

theorem request_saw_device_frame:
  assumes load: "getEmployeeProfile now detected (sawEmail args) st = Inr (p, st1)"
  shows "\<exists>p' r'.
           handleRequestSAWDevice now nowMs detected args st
             = Inr (SAWSubmitted (''SAW-'' @ decimal nowMs) (sawDeviceType args) (sawManagerEmail args),
                    st1(profilePath (email p) \<mapsto> p'))
         \<and> stepData p' 2 = Some r'
         \<and> r' ''sawRequestId'' = Some (JStr (''SAW-'' @ decimal nowMs))
         \<and> r' ''deviceType'' = Some (JStr (sawDeviceType args))
         \<and> r' ''managerEmail'' = Some (JStr (sawManagerEmail args))
         \<and> r' ''requestedAt'' = Some (JStr now)
         \<and> (\<forall>k. k \<notin> {''sawRequestId'', ''deviceType'', ''managerEmail'', ''requestedAt''} \<longrightarrow>
                r' k = (case stepData p 2 of None \<Rightarrow> None | Some r \<Rightarrow> r k))
         \<and> (\<forall>i. i \<noteq> 2 \<longrightarrow> stepData p' i = stepData p i)
         \<and> completedSteps p' = completedSteps p
         \<and> currentStep p' = currentStep p
         \<and> p' = p\<lparr> stepData := stepData p', lastUpdated := now \<rparr>"
proof -
  define r' where "r' = (case stepData p 2 of None \<Rightarrow> Map.empty | Some r \<Rightarrow> r)
       (''sawRequestId'' \<mapsto> JStr (''SAW-'' @ decimal nowMs),
        ''deviceType'' \<mapsto> JStr (sawDeviceType args),
        ''managerEmail'' \<mapsto> JStr (sawManagerEmail args),
        ''requestedAt'' \<mapsto> JStr now)"
  define p' where "p' = p\<lparr> stepData := (stepData p)(2 \<mapsto> r'), lastUpdated := now \<rparr>"
  have run: "handleRequestSAWDevice now nowMs detected args st
             = Inr (SAWSubmitted (''SAW-'' @ decimal nowMs) (sawDeviceType args) (sawManagerEmail args),
                    st1(profilePath (email p) \<mapsto> p'))"
    unfolding handleRequestSAWDevice_def load Let_def saveEmployeeProfile_def p'_def r'_def
    by simp
  have sd: "stepData p' 2 = Some r'" by (simp add: p'_def)
  have k1: "r' ''sawRequestId'' = Some (JStr (''SAW-'' @ decimal nowMs))" by (simp add: r'_def)
  have k2: "r' ''deviceType'' = Some (JStr (sawDeviceType args))" by (simp add: r'_def)
  have k3: "r' ''managerEmail'' = Some (JStr (sawManagerEmail args))" by (simp add: r'_def)
  have k4: "r' ''requestedAt'' = Some (JStr now)" by (simp add: r'_def)
  have others: "\<forall>k. k \<notin> {''sawRequestId'', ''deviceType'', ''managerEmail'', ''requestedAt''} \<longrightarrow>
                r' k = (case stepData p 2 of None \<Rightarrow> None | Some r \<Rightarrow> r k)"
    by (auto simp: r'_def split: option.splits)
  have entries: "\<forall>i. i \<noteq> 2 \<longrightarrow> stepData p' i = stepData p i" by (simp add: p'_def)
  have frame: "completedSteps p' = completedSteps p" "currentStep p' = currentStep p"
    "p' = p\<lparr> stepData := stepData p', lastUpdated := now \<rparr>"
    by (simp_all add: p'_def)
  from run sd k1 k2 k3 k4 others entries frame show ?thesis by blast
qed

lemma sawStore_eq: "sawStore = [''jdoe@company.com.json'' \<mapsto> profile0\<lparr>
     completedSteps := [1],
     stepData := [1 \<mapsto> completionRecord ''t1'' None None,
                  2 \<mapsto> [''sawRequestId'' \<mapsto> JStr ''SAW-1700'', ''deviceType'' \<mapsto> JStr ''laptop'',
                        ''managerEmail'' \<mapsto> JStr ''boss@company.com'', ''requestedAt'' \<mapsto> JStr ''t2'']],
     currentStep := 2, lastUpdated := ''t2''\<rparr>]"
  unfolding sawStore_def
  by (simp add: handleRequestSAWDevice_def sawArgs_def load_jdoe store1_eq profile0_eq
      saveEmployeeProfile_def Let_def storeAfter_def profilePath_def)

theorem request_saw_device_frame_witness:
  "getEmployeeProfile ''t2'' undetected (sawEmail sawArgs) store1
      = Inr (the (store1 ''jdoe@company.com.json''), store1)
   \<and> (\<exists>p' r'. handleRequestSAWDevice ''t2'' 1700 undetected sawArgs store1
                 = Inr (SAWSubmitted ''SAW-1700'' ''laptop'' ''boss@company.com'',
                        store1(''jdoe@company.com.json'' \<mapsto> p'))
         \<and> stepData p' 2 = Some r'
         \<and> r' ''sawRequestId'' = Some (JStr ''SAW-1700'')
         \<and> currentStep p' = 2 \<and> completedSteps p' = [1])"
proof -
  define p1 where "p1 = the (store1 ''jdoe@company.com.json'')"
  have p1: "store1 ''jdoe@company.com.json'' = Some p1" by (simp add: p1_def store1_eq)
  have l1: "getEmployeeProfile ''t2'' undetected (sawEmail sawArgs) store1 = Inr (p1, store1)"
    by (simp add: sawArgs_def load_jdoe [of store1 p1, OF p1])
  have e1: "profilePath (email p1) = ''jdoe@company.com.json''"
    "currentStep p1 = 2" "completedSteps p1 = [1]"
    by (simp_all add: p1_def store1_eq profile0_eq profilePath_def)
  have d: "decimal 1700 = ''1700''" by simp
  from request_saw_device_frame [OF l1, of 1700]
  have "\<exists>p' r'. handleRequestSAWDevice ''t2'' 1700 undetected sawArgs store1
                 = Inr (SAWSubmitted ''SAW-1700'' ''laptop'' ''boss@company.com'',
                        store1(''jdoe@company.com.json'' \<mapsto> p'))
         \<and> stepData p' 2 = Some r'
         \<and> r' ''sawRequestId'' = Some (JStr ''SAW-1700'')
         \<and> currentStep p' = 2 \<and> completedSteps p' = [1]"
    unfolding e1 d by (simp add: sawArgs_def) blast
  with l1 show ?thesis unfolding p1_def by blast
qed

subsection \<open>Where the code departs from the specification\<close>

text \<open>
  C1, on the code. The employee of the example requests a device while step 2 is current,
  which stores \<open>sawRequestId\<close> in the record of step 2; completing step 2 then replaces
  that record by \<open>completedAt\<close>, \<open>notes\<close> and \<open>data\<close>: the record is there, and
  \<open>sawRequestId\<close> is gone from it.
\<close>

theorem completion_discards_saw_request:
  "map_option currentStep (sawStore ''jdoe@company.com.json'') = Some 2
   \<and> map_option (\<lambda>p. map_option (\<lambda>r. r ''sawRequestId'') (stepData p 2))
        (sawStore ''jdoe@company.com.json'') = Some (Some (Some (JStr ''SAW-1700'')))
   \<and> responseOf (handleCompleteStep exampleDir ''t3'' undetected (completeArgs 2) sawStore)
        = Some (Completed 2 (getStep exampleDir 2) (getStep exampleDir 3))
   \<and> map_option (\<lambda>p. map_option (\<lambda>r. r ''completedAt'') (stepData p 2))
        (sawCompletedStore ''jdoe@company.com.json'') = Some (Some (Some (JStr ''t3'')))
   \<and> map_option (\<lambda>p. map_option (\<lambda>r. r ''sawRequestId'') (stepData p 2))
        (sawCompletedStore ''jdoe@company.com.json'') = Some (Some None)"
proof -
  have run: "handleCompleteStep exampleDir ''t3'' undetected (completeArgs 2) sawStore
    = Inr (Completed 2 (getStep exampleDir 2) (getStep exampleDir 3),
           [''jdoe@company.com.json'' \<mapsto> profile0\<lparr>
             completedSteps := [1, 2],
             stepData := [1 \<mapsto> completionRecord ''t1'' None None,
                          2 \<mapsto> completionRecord ''t3'' None None],
             currentStep := 3, lastUpdated := ''t3''\<rparr>])"
    by (simp add: handleCompleteStep_def load_jdoe sawStore_eq completeArgs_def profile0_eq
      stepToComplete_def saveEmployeeProfile_def Let_def exampleDir_steps exampleDir_getStep
      profilePath_def)
  have after: "sawCompletedStore = [''jdoe@company.com.json'' \<mapsto> profile0\<lparr>
             completedSteps := [1, 2],
             stepData := [1 \<mapsto> completionRecord ''t1'' None None,
                          2 \<mapsto> completionRecord ''t3'' None None],
             currentStep := 3, lastUpdated := ''t3''\<rparr>]"
    unfolding sawCompletedStore_def run by (simp add: storeAfter_def)
  show ?thesis
    unfolding after run
    by (simp add: sawStore_eq responseOf_def completionRecord_def)
qed

text \<open>
  Completing a step keeps the start date, the creation date, the name and the email of
  the profile it saves; a rejected completion saves nothing.
\<close>

lemma completion_keeps_dates:
  assumes load: "getEmployeeProfile now detected (csEmail args) st = Inr (p, st1)"
    and res: "handleCompleteStep dir now detected args st = Inr (r, st2)"
  shows "\<exists>p'. st2 (profilePath (email p)) = Some p' \<and> startDate p' = startDate p
            \<and> createdAt p' = createdAt p \<and> name p' = name p \<and> email p' = email p
            \<or> st2 = st1"
  using res unfolding handleCompleteStep_cases [OF load] Let_def
  by (auto split: if_splits)

text \<open>
  C2, on the code. The employee of the example has completed the steps 1 and 2;
  \<open>start_onboarding\<close> with the same email and a name answers with a welcome to step 1 and
  stores a new profile in place of the old one: start date and creation date are those of
  the call, the current step is 1, no step is completed, no step record is left, and the
  name and the buddy of the call are applied.
\<close>

theorem start_onboarding_resets_existing_profile:
  "map_option (\<lambda>p. (startDate p, createdAt p, currentStep p, completedSteps p, name p))
        (store2 ''jdoe@company.com.json'') = Some (''t0'', ''t0'', 3, [1, 2], ''Jdoe'')
   \<and> map_option (\<lambda>p. map_option (\<lambda>r. r ''completedAt'') (stepData p 1))
        (store2 ''jdoe@company.com.json'') = Some (Some (Some (JStr ''t1'')))
   \<and> responseOf (handleStartOnboarding exampleDir ''t9'' undetected restartArgs store2)
        = Some (Welcome ''John Doe'' 3 1 (getStep exampleDir 1))
   \<and> map_option (\<lambda>p. (startDate p, createdAt p, currentStep p, completedSteps p, name p))
        (restartedStore ''jdoe@company.com.json'') = Some (''t9'', ''t9'', 1, [], ''John Doe'')
   \<and> map_option (\<lambda>p. stepData p 1) (restartedStore ''jdoe@company.com.json'') = Some None"
proof -
  have run: "handleStartOnboarding exampleDir ''t9'' undetected restartArgs store2
    = Inr (Welcome ''John Doe'' 3 1 (getStep exampleDir 1),
           [''jdoe@company.com.json'' \<mapsto> \<lparr>email = ''jdoe@company.com'', name = ''John Doe'',
              startDate = ''t9'', buddyEmail = Some ''buddy@company.com'', department = None,
              currentStep = 1, completedSteps = [], stepData = Map.empty, createdAt = ''t9'',
              lastUpdated = ''t9'', version = ''1.0''\<rparr>])"
    by (simp add: handleStartOnboarding_def restartArgs_def createNewProfile_def orElse_def
      saveEmployeeProfile_def Let_def store2_eq profilePath_def exampleDir_steps
      toLowerCase_def toLowerChar_def lowerLetters_def upperLetters_def)
  show ?thesis
    unfolding restartedStore_def run
    by (simp add: store2_eq profile0_eq responseOf_def storeAfter_def completionRecord_def)
qed

lemma janeStore_eq: "janeStore = [''jane.roe@corp.com.json'' \<mapsto> \<lparr>email = ''jane.roe@corp.com'',
     name = ''Janet Roe'', startDate = ''t0'', buddyEmail = None, department = None,
     currentStep = 1, completedSteps = [], stepData = Map.empty, createdAt = ''t0'',
     lastUpdated = ''t0'', version = ''1.0''\<rparr>]"
  by (simp add: janeStore_def janeArgs_def createNewProfile_def orElse_def
      saveEmployeeProfile_def Let_def profilePath_def
      toLowerCase_def toLowerChar_def lowerLetters_def upperLetters_def)

text \<open>
  C7, on the code. \<open>createNewProfile\<close> stores the profile of \<open>Jane.Roe@Corp.com\<close> under the
  lower-cased email; \<open>getEmployeeProfile\<close> with the same email looks the file up under the
  email as given, finds none, and creates a fresh default profile, which replaces the
  stored one. With an email already in lower case the lookup finds the stored profile.
\<close>

theorem lookup_misses_mixed_case_email:
  "isValidEmail ''Jane.Roe@Corp.com''
   \<and> map_option (\<lambda>p. (name p, startDate p)) (janeStore (profilePath ''jane.roe@corp.com''))
        = Some (''Janet Roe'', ''t0'')
   \<and> janeStore (profilePath ''Jane.Roe@Corp.com'') = None
   \<and> map_option (\<lambda>p. (name p, startDate p))
        (responseOf (getEmployeeProfile ''t5'' undetected (Some ''Jane.Roe@Corp.com'') janeStore))
        = Some (''Jane Roe'', ''t5'')
   \<and> map_option (\<lambda>p. (name p, startDate p))
        (storeAfter janeStore
           (getEmployeeProfile ''t5'' undetected (Some ''Jane.Roe@Corp.com'') janeStore)
           (profilePath ''jane.roe@corp.com''))
        = Some (''Jane Roe'', ''t5'')"
proof -
  have valid: "isValidEmail ''Jane.Roe@Corp.com''"
    by (simp add: isValidEmail_def isSpace_def)
  have run: "getEmployeeProfile ''t5'' undetected (Some ''Jane.Roe@Corp.com'') janeStore
    = Inr (\<lparr>email = ''jane.roe@corp.com'', name = ''Jane Roe'', startDate = ''t5'',
             buddyEmail = None, department = None, currentStep = 1, completedSteps = [],
             stepData = Map.empty, createdAt = ''t5'', lastUpdated = ''t5'', version = ''1.0''\<rparr>,
           [''jane.roe@corp.com.json'' \<mapsto> \<lparr>email = ''jane.roe@corp.com'', name = ''Jane Roe'',
             startDate = ''t5'', buddyEmail = None, department = None, currentStep = 1,
             completedSteps = [], stepData = Map.empty, createdAt = ''t5'', lastUpdated = ''t5'',
             version = ''1.0''\<rparr>])"
    by (simp add: getEmployeeProfile_def resolveEmail_def janeStore_eq profilePath_def
      createNewProfile_def orElse_def saveEmployeeProfile_def Let_def str_defs)
  show ?thesis
    unfolding run
    by (simp add: valid janeStore_eq profilePath_def responseOf_def storeAfter_def)
qed

lemma lookup_lower_case_email:
  assumes "e \<noteq> []" and "toLowerCase e = e"
  shows "getEmployeeProfile now' detected (Some e) (snd (createNewProfile now e info st))
           = Inr (fst (createNewProfile now e info st), snd (createNewProfile now e info st))"
  using assms
  by (simp add: getEmployeeProfile_def resolveEmail_def createNewProfile_def
      saveEmployeeProfile_def Let_def)

subsection \<open>One record per id\<close>

lemma parsed_step_simps [simp]:
  "step_id (parseStepMarkdown c f) = fileStepId f"
  "isMarkdown (parseStepMarkdown c f)"
  "step_id (parseStepHTML c f) = fileStepId f"
  "\<not> isMarkdown (parseStepHTML c f)"
  by (simp_all add: parseStepMarkdown_def parseStepHTML_def)

lemma loadMarkdownFiles_isMarkdown: "x \<in> set (loadMarkdownFiles fs) \<Longrightarrow> isMarkdown x"
  by (induction fs rule: loadMarkdownFiles.induct) auto

lemma loadHtmlFiles_member:
  "x \<in> set (loadHtmlFiles ids fs) \<Longrightarrow> \<not> isMarkdown x \<and> step_id x \<notin> set ids"
  by (induction ids fs rule: loadHtmlFiles.induct) (auto split: if_splits option.splits)

lemma loadHtmlFiles_disjoint: "set ids \<inter> step_id ` set (loadHtmlFiles ids fs) = {}"
  using loadHtmlFiles_member [of _ ids fs] by blast

lemma loadHtmlFiles_claimed:
  "n \<in> set ids \<Longrightarrow> filter (\<lambda>s. step_id s = n) (loadHtmlFiles ids fs) = []"
  using loadHtmlFiles_member [of _ ids fs] by (auto simp: filter_empty_conv)

lemma loadMarkdownFiles_ids:
  "map step_id (loadMarkdownFiles fs) = map (fileStepId \<circ> fst) (filter (\<lambda>f. snd f \<noteq> None) fs)"
  by (induction fs rule: loadMarkdownFiles.induct) auto

lemma loadMarkdownFiles_filter:
  "filter (\<lambda>s. step_id s = n) (loadMarkdownFiles fs)
     = loadMarkdownFiles (filter (\<lambda>f. snd f \<noteq> None \<and> fileStepId (fst f) = n) fs)"
  by (induction fs rule: loadMarkdownFiles.induct) auto

lemma loadHtmlFiles_ids_distinct:
  "distinct (map (fileStepId \<circ> fst) (filter (\<lambda>f. snd f \<noteq> None) fs))
     \<Longrightarrow> distinct (map step_id (loadHtmlFiles ids fs))
         \<and> set (map step_id (loadHtmlFiles ids fs))
             \<subseteq> set (map (fileStepId \<circ> fst) (filter (\<lambda>f. snd f \<noteq> None) fs))"
  by (induction ids fs rule: loadHtmlFiles.induct) (auto split: if_splits option.splits)

lemma duplicateDir_steps: "getAllSteps duplicateDir =
   [\<lparr>step_id = 1, required = True, content = ''# A'', isMarkdown = True\<rparr>,
    \<lparr>step_id = 1, required = True, content = ''# B'', isMarkdown = True\<rparr>]"
  by (simp add: duplicateDir_def parse_defs)

text \<open>
  Two markdown documents whose names give the id 1 are both loaded: the list holds two
  records with the id 1. (Counterexample to C6 as stated.)
\<close>

theorem duplicate_ids_counterexample:
  "map step_id (getAllSteps duplicateDir) = [1, 1]
   \<and> map isMarkdown (getAllSteps duplicateDir) = [True, True]
   \<and> map content (getAllSteps duplicateDir) = [''# A'', ''# B'']
   \<and> \<not> distinct (map step_id (getAllSteps duplicateDir))"
  by (simp add: duplicateDir_steps)

text \<open>
  C6, amended. \<open>getAllSteps\<close> returns the records \<open>loadSteps\<close> accepted, sorted ascending by
  id. No HTML record shares its id with a markdown record. When exactly one readable
  markdown document has the id \<open>n\<close>, exactly one record has the id \<open>n\<close>, and it is the one
  parsed from that markdown document, whatever HTML documents carry the same id. When the
  readable documents of each format have ids different from one another, no two records
  share an id.
\<close>

theorem load_steps_sorted_markdown_wins:
  "sorted (map step_id (getAllSteps dir))
   \<and> set (getAllSteps dir) = set (loadSteps dir)
   \<and> (\<forall>x\<in>set (getAllSteps dir). \<forall>y\<in>set (getAllSteps dir).
         isMarkdown x \<and> \<not> isMarkdown y \<longrightarrow> step_id x \<noteq> step_id y)
   \<and> (\<forall>files file c n.
         dir = Some files
         \<and> filter (\<lambda>f. endsWith ''.md'' (fst f) \<and> snd f \<noteq> None \<and> fileStepId (fst f) = n) files
             = [(file, Some c)] \<longrightarrow>
         filter (\<lambda>s. step_id s = n) (getAllSteps dir) = [parseStepMarkdown c file])
   \<and> (\<forall>files.
         dir = Some files
         \<and> distinct (map (fileStepId \<circ> fst)
                        (filter (\<lambda>f. endsWith ''.md'' (fst f) \<and> snd f \<noteq> None) files))
         \<and> distinct (map (fileStepId \<circ> fst)
                        (filter (\<lambda>f. endsWith ''.html'' (fst f) \<and> snd f \<noteq> None) files)) \<longrightarrow>
         distinct (map step_id (getAllSteps dir)))"
proof (intro conjI)
  show "sorted (map step_id (getAllSteps dir))" by (rule sorted_getAllSteps)
  show "set (getAllSteps dir) = set (loadSteps dir)"
    by (simp add: getAllSteps_def loadConfiguration_def)
  show "\<forall>x\<in>set (getAllSteps dir). \<forall>y\<in>set (getAllSteps dir).
         isMarkdown x \<and> \<not> isMarkdown y \<longrightarrow> step_id x \<noteq> step_id y"
  proof (intro ballI impI, elim conjE)
    fix x y
    assume x: "x \<in> set (getAllSteps dir)" and y: "y \<in> set (getAllSteps dir)"
      and mx: "isMarkdown x" and my: "\<not> isMarkdown y"
    show "step_id x \<noteq> step_id y"
    proof (cases dir)
      case None
      with x show ?thesis by (simp add: getAllSteps_def loadConfiguration_def loadSteps_def)
    next
      case (Some files)
      define md where "md = loadMarkdownFiles (filter (\<lambda>f. endsWith ''.md'' (fst f)) files)"
      define html where "html = loadHtmlFiles (map step_id md) (filter (\<lambda>f. endsWith ''.html'' (fst f)) files)"
      have all: "set (getAllSteps dir) = set md \<union> set html"
        by (simp add: getAllSteps_def loadConfiguration_def loadSteps_def Some Let_def md_def html_def)
      from x mx all have xm: "x \<in> set md"
        using loadHtmlFiles_member [of x "map step_id md"] by (auto simp: html_def)
      from y my all have yh: "y \<in> set html"
        using loadMarkdownFiles_isMarkdown [of y] by (auto simp: md_def)
      from loadHtmlFiles_member [OF yh [unfolded html_def]]
      have "step_id y \<notin> step_id ` set md" by simp
      moreover from xm have "step_id x \<in> step_id ` set md" by (rule imageI)
      ultimately show ?thesis by auto
    qed
  qed
  show "\<forall>files file c n.
         dir = Some files
         \<and> filter (\<lambda>f. endsWith ''.md'' (fst f) \<and> snd f \<noteq> None \<and> fileStepId (fst f) = n) files
             = [(file, Some c)] \<longrightarrow>
         filter (\<lambda>s. step_id s = n) (getAllSteps dir) = [parseStepMarkdown c file]"
  proof (intro allI impI, elim conjE)
    fix files fname c n
    assume Some: "dir = Some files"
      and one: "filter (\<lambda>f. endsWith ''.md'' (fst f) \<and> snd f \<noteq> None \<and> fileStepId (fst f) = n) files
             = [(fname, Some c)]"
    define md where "md = loadMarkdownFiles (filter (\<lambda>f. endsWith ''.md'' (fst f)) files)"
    define html where "html = loadHtmlFiles (map step_id md) (filter (\<lambda>f. endsWith ''.html'' (fst f)) files)"
    have fm: "filter (\<lambda>s. step_id s = n) md = [parseStepMarkdown c fname]"
      unfolding md_def loadMarkdownFiles_filter filter_filter
      using one by (simp add: conj_commute conj_left_commute)
    have "parseStepMarkdown c fname \<in> set (filter (\<lambda>s. step_id s = n) md)"
      by (simp add: fm)
    then have "parseStepMarkdown c fname \<in> set md" and "fileStepId fname = n" by simp_all
    then have "n \<in> set (map step_id md)" by force
    then have fh: "filter (\<lambda>s. step_id s = n) html = []"
      unfolding html_def by (rule loadHtmlFiles_claimed)
    have "filter (\<lambda>s. step_id s = n) (getAllSteps dir) = filter (\<lambda>s. step_id s = n) (md @ html)"
      by (simp add: getAllSteps_def loadConfiguration_def loadSteps_def Some Let_def md_def
          html_def sort_key_stable)
    with fm fh show "filter (\<lambda>s. step_id s = n) (getAllSteps dir) = [parseStepMarkdown c fname]"
      by simp
  qed
  show "\<forall>files.
         dir = Some files
         \<and> distinct (map (fileStepId \<circ> fst)
                        (filter (\<lambda>f. endsWith ''.md'' (fst f) \<and> snd f \<noteq> None) files))
         \<and> distinct (map (fileStepId \<circ> fst)
                        (filter (\<lambda>f. endsWith ''.html'' (fst f) \<and> snd f \<noteq> None) files)) \<longrightarrow>
         distinct (map step_id (getAllSteps dir))"
  proof (intro allI impI, elim conjE)
    fix files
    assume Some: "dir = Some files"
      and dm: "distinct (map (fileStepId \<circ> fst)
                        (filter (\<lambda>f. endsWith ''.md'' (fst f) \<and> snd f \<noteq> None) files))"
      and dh: "distinct (map (fileStepId \<circ> fst)
                        (filter (\<lambda>f. endsWith ''.html'' (fst f) \<and> snd f \<noteq> None) files))"
    define md where "md = loadMarkdownFiles (filter (\<lambda>f. endsWith ''.md'' (fst f)) files)"
    define html where "html = loadHtmlFiles (map step_id md) (filter (\<lambda>f. endsWith ''.html'' (fst f)) files)"
    have d1: "distinct (map step_id md)"
      unfolding md_def loadMarkdownFiles_ids filter_filter
      using dm by (simp add: conj_commute)
    have "distinct (map (fileStepId \<circ> fst)
             (filter (\<lambda>f. snd f \<noteq> None) (filter (\<lambda>f. endsWith ''.html'' (fst f)) files)))"
      using dh by (simp add: conj_commute)
    from loadHtmlFiles_ids_distinct [OF this, of "map step_id md"]
    have d2: "distinct (map step_id html)" by (simp add: html_def)
    have d3: "set (map step_id md) \<inter> set (map step_id html) = {}"
      using loadHtmlFiles_disjoint [of "map step_id md"] by (simp add: html_def)
    have "distinct (map step_id (md @ html))" using d1 d2 d3 by simp
    then have "distinct (md @ html) \<and> inj_on step_id (set (md @ html))"
      by (simp only: distinct_map)
    then have "distinct (map step_id (sort_key step_id (md @ html)))"
      by (simp only: distinct_map distinct_sort set_sort simp_thms)
    then show "distinct (map step_id (getAllSteps dir))"
      by (simp add: getAllSteps_def loadConfiguration_def loadSteps_def Some Let_def md_def html_def)
  qed
qed

lemma mixedDir_steps: "getAllSteps mixedDir =
   [\<lparr>step_id = 2, required = True, content = ''# X'', isMarkdown = True\<rparr>,
    \<lparr>step_id = 5, required = True, content = ''<h1>Y</h1>'', isMarkdown = False\<rparr>]"
  by (simp add: mixedDir_def parse_defs)

theorem load_steps_sorted_markdown_wins_witness:
  "mixedDir = Some [(''step-2-x.html'', Some ''<h1>X</h1>''), (''step-5-y.html'', Some ''<h1>Y</h1>''),
                    (''step-2-x.md'', Some ''# X'')]
   \<and> filter (\<lambda>f. endsWith ''.md'' (fst f) \<and> snd f \<noteq> None \<and> fileStepId (fst f) = 2)
        [(''step-2-x.html'', Some ''<h1>X</h1>''), (''step-5-y.html'', Some ''<h1>Y</h1>''),
         (''step-2-x.md'', Some ''# X'')] = [(''step-2-x.md'', Some ''# X'')]
   \<and> filter (\<lambda>s. step_id s = 2) (getAllSteps mixedDir) = [parseStepMarkdown ''# X'' ''step-2-x.md'']
   \<and> map step_id (getAllSteps mixedDir) = [2, 5]
   \<and> map isMarkdown (getAllSteps mixedDir) = [True, False]
   \<and> distinct (map (fileStepId \<circ> fst)
         (filter (\<lambda>f. endsWith ''.md'' (fst f) \<and> snd f \<noteq> None)
            [(''step-2-x.html'', Some ''<h1>X</h1>''), (''step-5-y.html'', Some ''<h1>Y</h1>''),
             (''step-2-x.md'', Some ''# X'')]))
   \<and> distinct (map (fileStepId \<circ> fst)
         (filter (\<lambda>f. endsWith ''.html'' (fst f) \<and> snd f \<noteq> None)
            [(''step-2-x.html'', Some ''<h1>X</h1>''), (''step-5-y.html'', Some ''<h1>Y</h1>''),
             (''step-2-x.md'', Some ''# X'')]))
   \<and> distinct (map step_id (getAllSteps mixedDir))"
proof -
  have d: "mixedDir = Some [(''step-2-x.html'', Some ''<h1>X</h1>''),
       (''step-5-y.html'', Some ''<h1>Y</h1>''), (''step-2-x.md'', Some ''# X'')]"
    by (simp add: mixedDir_def)
  have f: "filter (\<lambda>f. endsWith ''.md'' (fst f) \<and> snd f \<noteq> None \<and> fileStepId (fst f) = 2)
        [(''step-2-x.html'', Some ''<h1>X</h1>''), (''step-5-y.html'', Some ''<h1>Y</h1>''),
         (''step-2-x.md'', Some ''# X'')] = [(''step-2-x.md'', Some ''# X'')]"
    by (simp add: endsWith_def fileStepId_def isDigit_def parseInt_def toDouble_def digitValue_def)
  from load_steps_sorted_markdown_wins [of mixedDir, THEN conjunct2, THEN conjunct2,
      THEN conjunct2, THEN conjunct1, rule_format, OF conjI [OF d f]]
  have th: "filter (\<lambda>s. step_id s = 2) (getAllSteps mixedDir)
              = [parseStepMarkdown ''# X'' ''step-2-x.md'']" .
  have s1: "map step_id (getAllSteps mixedDir) = [2, 5]" by (simp add: mixedDir_steps)
  have s2: "map isMarkdown (getAllSteps mixedDir) = [True, False]" by (simp add: mixedDir_steps)
  have d1: "distinct (map (fileStepId \<circ> fst)
         (filter (\<lambda>f. endsWith ''.md'' (fst f) \<and> snd f \<noteq> None)
            [(''step-2-x.html'', Some ''<h1>X</h1>''), (''step-5-y.html'', Some ''<h1>Y</h1>''),
             (''step-2-x.md'', Some ''# X'')]))"
    by (simp add: endsWith_def fileStepId_def isDigit_def parseInt_def toDouble_def digitValue_def)
  have d2: "distinct (map (fileStepId \<circ> fst)
         (filter (\<lambda>f. endsWith ''.html'' (fst f) \<and> snd f \<noteq> None)
            [(''step-2-x.html'', Some ''<h1>X</h1>''), (''step-5-y.html'', Some ''<h1>Y</h1>''),
             (''step-2-x.md'', Some ''# X'')]))"
    by (simp add: endsWith_def fileStepId_def isDigit_def parseInt_def toDouble_def digitValue_def)
  from load_steps_sorted_markdown_wins [of mixedDir, THEN conjunct2, THEN conjunct2,
      THEN conjunct2, THEN conjunct2, rule_format, OF conjI [OF d conjI [OF d1 d2]]]
  have d3: "distinct (map step_id (getAllSteps mixedDir))" .
  show ?thesis using d f th s1 s2 d1 d2 d3 by - (intro conjI; assumption)
qed

subsection \<open>The required flag of a markdown step\<close>



















end
